theory Spec2Isabelle
  imports Main "HOL-Library.AList"
begin

section \<open>Strings as the source uses them\<close>

text \<open>
  A JavaScript string is a sequence of UTF-16 code units; a code unit is modelled as a
  natural number (those below 65536 are code units), so every string the program can
  receive is a value of the type below. \<open>js\<close> turns an ASCII literal into its code
  units. The helpers are the string methods the source calls:
  \<^verbatim>\<open>replace(/\D/g, '')\<close>, \<^verbatim>\<open>startsWith\<close>, \<^verbatim>\<open>trim\<close>, \<^verbatim>\<open>split\<close> and \<^verbatim>\<open>join\<close>. The
  empty string is the only falsy string.

  \<^verbatim>\<open>\D\<close> matches every code unit but the ten digits. \<^verbatim>\<open>trim\<close> removes the white space and
  line terminators of ECMAScript: U+0009 to U+000D, U+0020, U+00A0, U+1680, U+2000 to
  U+200A, U+2028, U+2029, U+202F, U+205F, U+3000 and U+FEFF.
\<close>

type_synonym jsstring = "nat list"

abbreviation js :: "string \<Rightarrow> jsstring" where
  "js s \<equiv> map of_char s"

definition isDigit :: "nat \<Rightarrow> bool" where
  "isDigit c = (48 \<le> c \<and> c \<le> 57)"

definition digitsOnly :: "jsstring \<Rightarrow> jsstring" where
  "digitsOnly mobile = filter isDigit mobile"

definition startsWith :: "jsstring \<Rightarrow> jsstring \<Rightarrow> bool" where
  "startsWith p s = (take (length p) s = p)"

definition isWhitespace :: "nat \<Rightarrow> bool" where
  "isWhitespace c =
     (c \<in> set [9, 10, 11, 12, 13, 32, 160, 5760,
                8192, 8193, 8194, 8195, 8196, 8197, 8198, 8199, 8200, 8201, 8202,
                8232, 8233, 8239, 8287, 12288, 65279])"

definition trim :: "jsstring \<Rightarrow> jsstring" where
  "trim s = rev (dropWhile isWhitespace (rev (dropWhile isWhitespace s)))"

fun splitOn :: "nat \<Rightarrow> jsstring \<Rightarrow> jsstring list" where
  "splitOn d [] = [[]]"
| "splitOn d (c # cs) =
     (if c = d then [] # splitOn d cs
      else (case splitOn d cs of w # ws \<Rightarrow> (c # w) # ws | [] \<Rightarrow> [[c]]))"

fun joinWith :: "jsstring \<Rightarrow> jsstring list \<Rightarrow> jsstring" where
  "joinWith sep [] = []"
| "joinWith sep [w] = w"
| "joinWith sep (w # v # ws) = w @ sep @ joinWith sep (v # ws)"

section \<open>Conversation history store (aiHandler)\<close>

text \<open>
  A turn is \<^verbatim>\<open>{ role, parts: [{ text }] }\<close>. The history of an identity is one JSON file
  under the histories directory: the file is absent, present but unreadable (reading it
  throws), or holds a list of turns. \<^verbatim>\<open>getHistory\<close> returns the empty list in the first
  two cases.
\<close>

record turn =
  role :: jsstring
  partsText :: jsstring

datatype hist_file = NoFile | Unreadable | Stored "turn list"

type_synonym histories = "jsstring \<Rightarrow> hist_file"

definition getHistory :: "histories \<Rightarrow> jsstring \<Rightarrow> turn list" where
  "getHistory fs mobile = (case fs mobile of Stored history \<Rightarrow> history | _ \<Rightarrow> [])"

text \<open>
  \<^verbatim>\<open>addMessageToHistory\<close>: the first argument tells whether \<^verbatim>\<open>fs.writeJson\<close> succeeds; a
  failed write is logged and swallowed, and the file keeps its content.
\<close>

definition isDuplicate :: "turn list \<Rightarrow> jsstring \<Rightarrow> jsstring \<Rightarrow> bool" where
  "isDuplicate history r content =
     (case rev history of
        [] \<Rightarrow> False
      | lastMessage # _ \<Rightarrow> role lastMessage = r \<and> partsText lastMessage = content)"

definition addMessageToHistory ::
  "bool \<Rightarrow> jsstring \<Rightarrow> jsstring \<Rightarrow> jsstring \<Rightarrow> histories \<Rightarrow> histories" where
  "addMessageToHistory writeOk mobile r content fs =
     (let history = getHistory fs mobile in
      if isDuplicate history r content then fs
      else if writeOk
        then fs(mobile := Stored (history @ [\<lparr>role = r, partsText = content\<rparr>]))
        else fs)"

text \<open>
  \<^verbatim>\<open>clearHistory\<close>: removes the file when it exists; the first argument tells whether
  \<^verbatim>\<open>fs.remove\<close> succeeds.
\<close>

definition clearHistory :: "bool \<Rightarrow> jsstring \<Rightarrow> histories \<Rightarrow> histories" where
  "clearHistory removeOk mobile fs =
     (case fs mobile of
        NoFile \<Rightarrow> fs
      | _ \<Rightarrow> if removeOk then fs(mobile := NoFile) else fs)"

section \<open>Prompt manager\<close>

record prompt =
  systemPrompt :: jsstring

datatype prompt_error = PromptNotFound

datatype js_error = TypeError

section \<open>Session registry: data\<close>

text \<open>
  A transport client is an opaque object, identified here by a number. The status strings
  the source assigns are \<^verbatim>\<open>'initializing'\<close>, \<^verbatim>\<open>'pairing'\<close>, \<^verbatim>\<open>'authenticated'\<close>,
  \<^verbatim>\<open>'ready'\<close>, \<^verbatim>\<open>'unauthenticated'\<close> and \<^verbatim>\<open>'disconnected'\<close>.

  A session state is a plain object; a field that is \<^verbatim>\<open>null\<close> or missing is \<open>None\<close>
  (the source only tests such fields for truthiness or compares them with a literal).
\<close>

type_synonym client_handle = nat

datatype session_status =
  Initializing | Pairing | Authenticated | Ready | Unauthenticated | Disconnected

datatype ai_handler = AIHandler

record session =
  client :: "client_handle option"
  status :: "session_status option"
  pairingCode :: "jsstring option"
  lastActive :: "nat option"
  promptManager :: bool
  aiHandler :: "ai_handler option"

text \<open>
  The second argument of \<^verbatim>\<open>updateSessionState\<close> is an object literal holding some of the
  fields. For a field that the source sets to \<^verbatim>\<open>null\<close> the literal says \<open>Some None\<close>; a
  field that the literal leaves out is \<open>None\<close> and survives the shallow merge.
\<close>

record fields =
  setClient :: "client_handle option"
  setStatus :: "session_status option"
  setPairingCode :: "jsstring option option"
  setLastActive :: "nat option"
  setPromptManager :: bool
  setAiHandler :: "ai_handler option option"

definition noFields :: fields where
  "noFields = \<lparr>setClient = None, setStatus = None, setPairingCode = None,
     setLastActive = None, setPromptManager = False, setAiHandler = None\<rparr>"

definition emptyObject :: session where
  "emptyObject = \<lparr>client = None, status = None, pairingCode = None,
     lastActive = None, promptManager = False, aiHandler = None\<rparr>"

definition merge :: "session \<Rightarrow> fields \<Rightarrow> session" where
  "merge s f =
     \<lparr>client = (case setClient f of Some c \<Rightarrow> Some c | None \<Rightarrow> client s),
      status = (case setStatus f of Some x \<Rightarrow> Some x | None \<Rightarrow> status s),
      pairingCode = (case setPairingCode f of Some v \<Rightarrow> v | None \<Rightarrow> pairingCode s),
      lastActive = (case setLastActive f of Some t \<Rightarrow> Some t | None \<Rightarrow> lastActive s),
      promptManager = (if setPromptManager f then True else promptManager s),
      aiHandler = (case setAiHandler f of Some v \<Rightarrow> v | None \<Rightarrow> aiHandler s)\<rparr>"

type_synonym registry = "(jsstring \<times> session) list"

text \<open>
  The registry is a JavaScript \<^verbatim>\<open>Map\<close>: \<^verbatim>\<open>set\<close> on a key that is present replaces the
  value in place, on a new key it appends; \<^verbatim>\<open>size\<close> is the number of entries.
\<close>

definition updateSessionState :: "jsstring \<Rightarrow> fields \<Rightarrow> registry \<Rightarrow> registry" where
  "updateSessionState mobile f cl =
     (case map_of cl mobile of
        Some old \<Rightarrow> AList.update mobile (merge old f) cl
      | None \<Rightarrow> AList.update mobile (merge emptyObject f) cl)"

definition readyFields :: "client_handle \<Rightarrow> nat \<Rightarrow> fields" where
  "readyFields c now = noFields\<lparr>setClient := Some c, setStatus := Some Ready,
     setPairingCode := Some None, setLastActive := Some now\<rparr>"

definition authenticatedFields :: "client_handle \<Rightarrow> nat \<Rightarrow> fields" where
  "authenticatedFields c now = noFields\<lparr>setClient := Some c, setStatus := Some Authenticated,
     setLastActive := Some now\<rparr>"

definition authFailureFields :: "client_handle \<Rightarrow> nat \<Rightarrow> fields" where
  "authFailureFields c now = noFields\<lparr>setClient := Some c, setStatus := Some Unauthenticated,
     setPairingCode := Some None, setLastActive := Some now\<rparr>"

definition disconnectedFields :: "client_handle \<Rightarrow> nat \<Rightarrow> fields" where
  "disconnectedFields c now = noFields\<lparr>setClient := Some c, setStatus := Some Disconnected,
     setPairingCode := Some None, setLastActive := Some now\<rparr>"

definition initializingFields :: "client_handle \<Rightarrow> nat \<Rightarrow> fields" where
  "initializingFields c now = noFields\<lparr>setClient := Some c, setStatus := Some Initializing,
     setPairingCode := Some None, setLastActive := Some now, setPromptManager := True,
     setAiHandler := Some None\<rparr>"

definition pairingFields :: "jsstring \<Rightarrow> fields" where
  "pairingFields code = noFields\<lparr>setStatus := Some Pairing, setPairingCode := Some (Some code)\<rparr>"

definition lastActiveFields :: "nat \<Rightarrow> fields" where
  "lastActiveFields now = noFields\<lparr>setLastActive := Some now\<rparr>"

section \<open>Program state\<close>

text \<open>
  The module-level maps and the files the code owns: the session registry \<^verbatim>\<open>clients\<close>,
  the identities that have a \<^verbatim>\<open>session-<mobile>\<close> directory, the history files, the
  custom prompts and the default prompt (\<^verbatim>\<open>null\<close> until it is loaded).
\<close>

record state =
  clients :: registry
  authState :: "jsstring set"
  histories :: histories
  customPrompts :: "(jsstring \<times> prompt) list"
  defaultPrompt :: "prompt option"

section \<open>Responses\<close>

record session_view =
  viewMobile :: jsstring
  viewStatus :: "session_status option"
  viewReady :: bool
  viewPairingCode :: "jsstring option"
  viewLastActive :: "nat option"

datatype response =
    MaxSessionsReached
  | SessionAlreadyActive "session_status option"
  | SessionIsPairing "jsstring option"
  | SessionIsInitializing
  | SessionStarted jsstring
  | SessionInitFailed
  | SessionNotFound
  | StatusReport bool "jsstring option" "session_status option"
  | NoPairingCode
  | PairingCodeReport jsstring
  | MissingToOrMessage
  | NotFoundOrNotReady
  | MessageSent
  | SendFailed
  | SessionList "session_view list"
  | SessionDestroyed
  | MissingSystemPrompt
  | PromptUpdated prompt
  | PromptSetFailed
  | PromptRemoved
  | PromptDeleteFailed
  | NoCustomPrompt

fun statusCode :: "response \<Rightarrow> nat" where
  "statusCode MaxSessionsReached = 429"
| "statusCode (SessionAlreadyActive _) = 200"
| "statusCode (SessionIsPairing _) = 200"
| "statusCode SessionIsInitializing = 200"
| "statusCode (SessionStarted _) = 201"
| "statusCode SessionInitFailed = 500"
| "statusCode SessionNotFound = 404"
| "statusCode (StatusReport _ _ _) = 200"
| "statusCode NoPairingCode = 404"
| "statusCode (PairingCodeReport _) = 200"
| "statusCode MissingToOrMessage = 400"
| "statusCode NotFoundOrNotReady = 404"
| "statusCode MessageSent = 200"
| "statusCode SendFailed = 500"
| "statusCode (SessionList _) = 200"
| "statusCode SessionDestroyed = 200"
| "statusCode MissingSystemPrompt = 400"
| "statusCode (PromptUpdated _) = 200"
| "statusCode PromptSetFailed = 500"
| "statusCode PromptRemoved = 200"
| "statusCode PromptDeleteFailed = 500"
| "statusCode NoCustomPrompt = 404"

section \<open>Prompt manager: operations\<close>

definition getPromptByMobile :: "jsstring \<Rightarrow> state \<Rightarrow> prompt_error + prompt" where
  "getPromptByMobile mobile st =
     (let mobileNumber = digitsOnly mobile in
      case map_of (customPrompts st) mobileNumber of
        Some p \<Rightarrow> Inr p
      | None \<Rightarrow> (case defaultPrompt st of Some d \<Rightarrow> Inr d | None \<Rightarrow> Inl PromptNotFound))"

text \<open>
  \<^verbatim>\<open>setPrompt\<close>: \<open>hasRes\<close> tells whether a response object was passed (the route passes
  one, the command router does not), \<open>writeOk\<close> whether \<^verbatim>\<open>fs.writeJson\<close> succeeds. Without
  a response object the rejection of an empty prompt dereferences \<^verbatim>\<open>undefined\<close>.
\<close>

definition setPrompt ::
  "bool \<Rightarrow> bool \<Rightarrow> jsstring \<Rightarrow> jsstring \<Rightarrow> state \<Rightarrow> (js_error + response option) \<times> state" where
  "setPrompt hasRes writeOk mobile sp st =
     (let mobileNumber = digitsOnly mobile in
      if sp = [] then ((if hasRes then Inr (Some MissingSystemPrompt) else Inl TypeError), st)
      else
        let promptData = \<lparr>systemPrompt = sp\<rparr> in
        if writeOk
        then (Inr (if hasRes then Some (PromptUpdated promptData) else None),
              st\<lparr>customPrompts := AList.update mobileNumber promptData (customPrompts st)\<rparr>)
        else (Inr (if hasRes then Some PromptSetFailed else None), st))"

definition deletePrompt :: "bool \<Rightarrow> jsstring \<Rightarrow> state \<Rightarrow> response \<times> state" where
  "deletePrompt removeOk mobile st =
     (let mobileNumber = digitsOnly mobile in
      case map_of (customPrompts st) mobileNumber of
        Some _ \<Rightarrow>
          if removeOk
          then (PromptRemoved, st\<lparr>customPrompts := AList.delete mobileNumber (customPrompts st)\<rparr>)
          else (PromptDeleteFailed, st)
      | None \<Rightarrow> (NoCustomPrompt, st))"

section \<open>AI relay\<close>

text \<open>
  The outcomes of the external calls of one \<^verbatim>\<open>generateAIResponse\<close>: whether the API key
  is configured, the generation call (system prompt, history, utterance; \<open>None\<close> when it
  throws), and whether each of the two history writes succeeds.
\<close>

record ai_io =
  apiKey :: bool
  generate :: "jsstring \<Rightarrow> turn list \<Rightarrow> jsstring \<Rightarrow> jsstring option"
  userWriteOk :: bool
  modelWriteOk :: bool

datatype cause = PromptMissing | PromptInvalid | GenerationFailed

datatype ai_error = ApiKeyNotConfigured | FailedToGenerate cause

definition generateAIResponse ::
  "'a ai_io_scheme \<Rightarrow> jsstring \<Rightarrow> jsstring \<Rightarrow> state \<Rightarrow> (ai_error + jsstring) \<times> state" where
  "generateAIResponse io userMessage mobileNumber st =
     (if \<not> apiKey io then (Inl ApiKeyNotConfigured, st)
      else
        case getPromptByMobile mobileNumber st of
          Inl _ \<Rightarrow> (Inl (FailedToGenerate PromptMissing), st)
        | Inr systemPromptData \<Rightarrow>
            if systemPrompt systemPromptData = [] then (Inl (FailedToGenerate PromptInvalid), st)
            else
              let st1 = st\<lparr>histories :=
                    addMessageToHistory (userWriteOk io) mobileNumber (js ''user'') userMessage
                      (histories st)\<rparr>;
                  history = getHistory (histories st1) mobileNumber
              in
              (case generate io (systemPrompt systemPromptData) history userMessage of
                 None \<Rightarrow> (Inl (FailedToGenerate GenerationFailed), st1)
               | Some reply \<Rightarrow>
                   (Inr reply,
                    st1\<lparr>histories :=
                      addMessageToHistory (modelWriteOk io) mobileNumber (js ''model'') reply
                        (histories st1)\<rparr>)))"

section \<open>Session registry: operations\<close>

definition getSessionState :: "jsstring \<Rightarrow> state \<Rightarrow> session option" where
  "getSessionState mobile st = map_of (clients st) mobile"

text \<open>
  \<^verbatim>\<open>removeSession\<close>. The outcomes of its external calls: whether \<^verbatim>\<open>client.destroy()\<close>,
  the removal of the session directory and the removal of the history file succeed. Each
  failure is caught and logged. The function returns the steps it attempted, in order,
  each with its outcome, and the new state.
\<close>

record teardown_io =
  destroyOk :: bool
  removeDirOk :: bool
  clearHistoryOk :: bool

datatype teardown_step =
    DestroyClient client_handle
  | RemoveAuthState jsstring
  | ClearHistory jsstring
  | DeleteEntry jsstring

definition removeSession ::
  "teardown_io \<Rightarrow> jsstring \<Rightarrow> state \<Rightarrow> (teardown_step \<times> bool) list \<times> state" where
  "removeSession io mobile st =
     (let sessionState = map_of (clients st) mobile;
          destroySteps =
            (case sessionState of
               None \<Rightarrow> []
             | Some s \<Rightarrow>
                 (case client s of
                    None \<Rightarrow> []
                  | Some c \<Rightarrow> [(DestroyClient c, destroyOk io)]));
          st1 = (if removeDirOk io then st\<lparr>authState := authState st - {mobile}\<rparr> else st);
          clearSteps =
            (case sessionState of
               None \<Rightarrow> []
             | Some s \<Rightarrow>
                 (case aiHandler s of
                    None \<Rightarrow> []
                  | Some h \<Rightarrow> [(ClearHistory mobile, True)]));
          st2 = (if clearSteps = [] then st1
                 else st1\<lparr>histories := clearHistory (clearHistoryOk io) mobile (histories st1)\<rparr>)
      in (destroySteps @ [(RemoveAuthState mobile, removeDirOk io)] @ clearSteps
            @ [(DeleteEntry mobile, True)],
          st2\<lparr>clients := AList.delete mobile (clients st2)\<rparr>))"

text \<open>
  The transport callbacks attached to a client \<open>c\<close> created for \<open>mobileNumber\<close>; \<open>now\<close>
  is \<^verbatim>\<open>Date.now()\<close>. The \<^verbatim>\<open>qr\<close> callback is attached by startup recovery only; its
  argument is the result of \<^verbatim>\<open>requestPairingCode\<close> (\<open>None\<close> when it throws).
\<close>

definition on_ready :: "client_handle \<Rightarrow> jsstring \<Rightarrow> nat \<Rightarrow> state \<Rightarrow> state" where
  "on_ready c mobileNumber now st =
     st\<lparr>clients := updateSessionState mobileNumber (readyFields c now) (clients st)\<rparr>"

definition on_authenticated :: "client_handle \<Rightarrow> jsstring \<Rightarrow> nat \<Rightarrow> state \<Rightarrow> state" where
  "on_authenticated c mobileNumber now st =
     st\<lparr>clients := updateSessionState mobileNumber (authenticatedFields c now) (clients st)\<rparr>"

definition on_auth_failure :: "client_handle \<Rightarrow> jsstring \<Rightarrow> nat \<Rightarrow> state \<Rightarrow> state" where
  "on_auth_failure c mobileNumber now st =
     st\<lparr>clients := updateSessionState mobileNumber (authFailureFields c now) (clients st)\<rparr>"

definition on_disconnected :: "client_handle \<Rightarrow> jsstring \<Rightarrow> nat \<Rightarrow> state \<Rightarrow> state" where
  "on_disconnected c mobileNumber now st =
     st\<lparr>clients := updateSessionState mobileNumber (disconnectedFields c now) (clients st)\<rparr>"

definition on_qr :: "jsstring option \<Rightarrow> jsstring \<Rightarrow> state \<Rightarrow> state" where
  "on_qr requested mobileNumber st =
     (case requested of
        Some code \<Rightarrow>
          st\<lparr>clients := updateSessionState mobileNumber (pairingFields code) (clients st)\<rparr>
      | None \<Rightarrow>
          st\<lparr>clients := updateSessionState mobileNumber (pairingFields (js ''ERROR'')) (clients st)\<rparr>)"

text \<open>
  \<^verbatim>\<open>createOrReuseSession\<close>. The outcomes of its external calls: the client object that
  \<^verbatim>\<open>new Client\<close> returns, whether \<^verbatim>\<open>client.initialize()\<close> succeeds, the result of
  \<^verbatim>\<open>requestPairingCode\<close>, the clock, and the outcomes of the teardown that follows a
  failure. \<open>MAX_SESSIONS\<close> is the configured maximum.

  The handler is asynchronous: it suspends at \<^verbatim>\<open>await client.initialize()\<close> and at
  \<^verbatim>\<open>await client.requestPairingCode(mobileNumber)\<close>, and other requests and callbacks may
  run while it is suspended. It is therefore modelled as three uninterrupted parts, each
  applied to the state of the moment it runs:
  \<^item> \<open>createBegin\<close>, from the entry of the handler to the first \<^verbatim>\<open>await\<close>: the capacity
    guard and the three answers for an existing session; \<open>None\<close> as answer means that
    the handler is suspended at \<^verbatim>\<open>client.initialize()\<close>;
  \<^item> \<open>createInitialized\<close>, from the settling of \<^verbatim>\<open>client.initialize()\<close> to the second
    \<^verbatim>\<open>await\<close> (or to the answer 500 after the teardown);
  \<^item> \<open>createPaired\<close>, from the settling of \<^verbatim>\<open>requestPairingCode\<close> to the answer.
  \<open>createOrReuseSession\<close> is the three parts one right after the other: the request
  during whose suspensions nothing else runs.
\<close>

record create_io =
  newClient :: client_handle
  initOk :: bool
  pairingResult :: "jsstring option"
  dateNow :: nat
  teardown :: teardown_io

definition createBegin ::
  "nat \<Rightarrow> create_io \<Rightarrow> jsstring \<Rightarrow> state \<Rightarrow> response option \<times> state" where
  "createBegin MAX_SESSIONS io mobile st =
     (let mobileNumber = digitsOnly mobile;
          sessionState = getSessionState mobileNumber st;
          hasClient = (case sessionState of None \<Rightarrow> False
                       | Some s \<Rightarrow> (case client s of None \<Rightarrow> False | Some _ \<Rightarrow> True));
          currentStatus = (case sessionState of None \<Rightarrow> None | Some s \<Rightarrow> status s)
      in
      if MAX_SESSIONS \<le> length (clients st) \<and> sessionState = None
        then (Some MaxSessionsReached, st)
      else if hasClient \<and> (currentStatus = Some Ready \<or> currentStatus = Some Authenticated)
        then (Some (SessionAlreadyActive currentStatus),
              st\<lparr>clients :=
                updateSessionState mobileNumber (lastActiveFields (dateNow io)) (clients st)\<rparr>)
      else if hasClient \<and> currentStatus = Some Pairing
        then (Some (SessionIsPairing
                (case sessionState of None \<Rightarrow> None | Some s \<Rightarrow> pairingCode s)), st)
      else if currentStatus = Some Initializing
        then (Some SessionIsInitializing, st)
      else (None, st))"

definition createInitialized ::
  "create_io \<Rightarrow> jsstring \<Rightarrow> state \<Rightarrow> response option \<times> state" where
  "createInitialized io mobileNumber st =
     (if \<not> initOk io
      then (Some SessionInitFailed, snd (removeSession (teardown io) mobileNumber st))
      else (None,
            st\<lparr>clients :=
              updateSessionState mobileNumber (initializingFields (newClient io) (dateNow io))
                (clients st)\<rparr>))"

definition createPaired :: "create_io \<Rightarrow> jsstring \<Rightarrow> state \<Rightarrow> response \<times> state" where
  "createPaired io mobileNumber st =
     (case pairingResult io of
        None \<Rightarrow> (SessionInitFailed, snd (removeSession (teardown io) mobileNumber st))
      | Some code \<Rightarrow>
          (SessionStarted code,
           st\<lparr>clients := updateSessionState mobileNumber (pairingFields code) (clients st)\<rparr>))"

definition createOrReuseSession ::
  "nat \<Rightarrow> create_io \<Rightarrow> jsstring \<Rightarrow> state \<Rightarrow> response \<times> state" where
  "createOrReuseSession MAX_SESSIONS io mobile st =
     (case createBegin MAX_SESSIONS io mobile st of
        (Some answer, st') \<Rightarrow> (answer, st')
      | (None, st0) \<Rightarrow>
          (case createInitialized io (digitsOnly mobile) st0 of
             (Some answer, st') \<Rightarrow> (answer, st')
           | (None, st1) \<Rightarrow> createPaired io (digitsOnly mobile) st1))"

text \<open>
  \<^verbatim>\<open>loadExistingSessions\<close>: the argument lists the entries of the sessions directory in
  the order \<^verbatim>\<open>readdir\<close> gives them, each with the client object created for it, whether
  its \<^verbatim>\<open>initialize()\<close> succeeds, the clock and the outcomes of the teardown after a
  failure. A \<^verbatim>\<open>readdir\<close> that throws is the empty listing. No capacity check is made
  here.
\<close>

fun loadExistingSessions ::
  "(jsstring \<times> client_handle \<times> bool \<times> nat \<times> teardown_io) list \<Rightarrow> state \<Rightarrow> state" where
  "loadExistingSessions [] st = st"
| "loadExistingSessions ((folder, c, ok, now, tio) # rest) st =
     (if startsWith (js ''session-'') folder
      then
        let mobileNumber = drop (length (js ''session-'')) folder in
        loadExistingSessions rest
          (if ok
           then st\<lparr>clients :=
                  updateSessionState mobileNumber (initializingFields c now) (clients st)\<rparr>
           else snd (removeSession tio mobileNumber st))
      else loadExistingSessions rest st)"

definition getSessionStatus :: "jsstring \<Rightarrow> state \<Rightarrow> response" where
  "getSessionStatus mobile st =
     (case getSessionState (digitsOnly mobile) st of
        None \<Rightarrow> SessionNotFound
      | Some sessionState \<Rightarrow>
          StatusReport (status sessionState = Some Ready)
            (if status sessionState = Some Pairing then pairingCode sessionState else None)
            (status sessionState))"

definition getPairingCode :: "jsstring \<Rightarrow> state \<Rightarrow> response" where
  "getPairingCode mobile st =
     (case getSessionState (digitsOnly mobile) st of
        None \<Rightarrow> NoPairingCode
      | Some sessionState \<Rightarrow>
          if status sessionState = Some Pairing
          then (case pairingCode sessionState of
                  None \<Rightarrow> NoPairingCode
                | Some code \<Rightarrow> if code = [] then NoPairingCode else PairingCodeReport code)
          else NoPairingCode)"

definition listSessions :: "state \<Rightarrow> response" where
  "listSessions st =
     SessionList (map (\<lambda>(mobile, s).
       \<lparr>viewMobile = mobile, viewStatus = status s, viewReady = (status s = Some Ready),
        viewPairingCode = (if status s = Some Pairing then pairingCode s else None),
        viewLastActive = lastActive s\<rparr>) (clients st))"

text \<open>
  \<^verbatim>\<open>sendMessage\<close>: \<open>sendOk\<close> tells whether the transport's \<^verbatim>\<open>sendMessage\<close> succeeds.
  The function returns the response, the transport sends it attempted (client, recipient,
  text) and the state.
\<close>

definition sendMessage ::
  "bool \<Rightarrow> jsstring \<Rightarrow> jsstring \<Rightarrow> jsstring \<Rightarrow> state \<Rightarrow>
     response \<times> (client_handle \<times> jsstring \<times> jsstring) list \<times> state" where
  "sendMessage sendOk mobile to message st =
     (let mobileNumber = digitsOnly mobile in
      if to = [] then (MissingToOrMessage, [], st)
      else if message = [] then (MissingToOrMessage, [], st)
      else
        (case getSessionState mobileNumber st of
           None \<Rightarrow> (NotFoundOrNotReady, [], st)
         | Some sessionState \<Rightarrow>
             (case client sessionState of
                None \<Rightarrow> (NotFoundOrNotReady, [], st)
              | Some c \<Rightarrow>
                  if status sessionState = Some Ready
                  then ((if sendOk then MessageSent else SendFailed), [(c, to, message)], st)
                  else (NotFoundOrNotReady, [], st))))"

definition deleteSession :: "teardown_io \<Rightarrow> jsstring \<Rightarrow> state \<Rightarrow> response \<times> state" where
  "deleteSession io mobile st =
     (let mobileNumber = digitsOnly mobile in
      case getSessionState mobileNumber st of
        None \<Rightarrow> (SessionNotFound, st)
      | Some _ \<Rightarrow> (SessionDestroyed, snd (removeSession io mobileNumber st)))"

section \<open>Command router\<close>

text \<open>
  The \<^verbatim>\<open>message_create\<close> callback. The outcomes of its external calls extend those of
  the AI relay: whether \<^verbatim>\<open>fs.ensureDir\<close> in \<^verbatim>\<open>initializeAI\<close> succeeds, whether the
  prompt file write succeeds, and whether the transport accepts a send (recipient, text).
  The callback returns the calls it made, in order, whether its promise resolved or
  rejected, and the new state.
\<close>

record message =
  msgFrom :: jsstring
  msgBody :: jsstring

record router_io = ai_io +
  ensureDirOk :: bool
  promptWriteOk :: bool
  transportSendOk :: "jsstring \<Rightarrow> jsstring \<Rightarrow> bool"

datatype call =
    SetPromptCall jsstring jsstring
  | InitializeAICall jsstring
  | GenerateAIResponseCall jsstring jsstring
  | SendMessageCall jsstring jsstring

datatype settled = Resolved | Rejected

definition promptUpdatedText :: jsstring where
  "promptUpdatedText = js ''Prompt updated successfully!''"

definition promptFailedText :: jsstring where
  "promptFailedText = js ''Failed to update prompt.''"

definition providePromptText :: jsstring where
  "providePromptText = js ''Please provide a prompt after the .setprompt command.''"

definition apologyText :: jsstring where
  "apologyText = js ''Sorry, I encountered an error processing your request.''"

definition welcomeText :: jsstring where
  "welcomeText =
     (js ''Welcome! You can start a conversation by sending a message starting with a dot (.), or set a new prompt using '')
     @ [34] @ (js ''.setprompt your new prompt here'') @ [34] @ (js ''.'')"

text \<open>A send outside any \<^verbatim>\<open>try\<close>: its failure rejects the callback's promise.\<close>

definition sendPlain :: "router_io \<Rightarrow> jsstring \<Rightarrow> jsstring \<Rightarrow> call list \<times> settled" where
  "sendPlain io to txt =
     ([SendMessageCall to txt], (if transportSendOk io to txt then Resolved else Rejected))"

text \<open>A send inside a \<^verbatim>\<open>try\<close> whose \<^verbatim>\<open>catch\<close> sends a fallback text.\<close>

definition sendGuarded :: "router_io \<Rightarrow> jsstring \<Rightarrow> jsstring \<Rightarrow> jsstring \<Rightarrow> call list \<times> settled" where
  "sendGuarded io to txt fallback =
     (if transportSendOk io to txt then ([SendMessageCall to txt], Resolved)
      else (SendMessageCall to txt # fst (sendPlain io to fallback),
            snd (sendPlain io to fallback)))"

text \<open>
  The locals of the callback: \<^verbatim>\<open>msg.from.split('@')[0]\<close>, \<^verbatim>\<open>msg.body.slice(1).trim()\<close>
  and the destructuring \<^verbatim>\<open>[commandName, ...args] = command.split(' ')\<close>.
\<close>

definition fromNumberOf :: "message \<Rightarrow> jsstring" where
  "fromNumberOf msg = (case splitOn 64 (msgFrom msg) of [] \<Rightarrow> [] | w # _ \<Rightarrow> w)"

definition commandOf :: "message \<Rightarrow> jsstring" where
  "commandOf msg = trim (drop 1 (msgBody msg))"

definition commandNameOf :: "jsstring \<Rightarrow> jsstring" where
  "commandNameOf command = (case splitOn 32 command of [] \<Rightarrow> [] | w # _ \<Rightarrow> w)"

definition argsOf :: "jsstring \<Rightarrow> jsstring list" where
  "argsOf command = drop 1 (splitOn 32 command)"

definition message_create ::
  "router_io \<Rightarrow> jsstring \<Rightarrow> message \<Rightarrow> state \<Rightarrow> (call list \<times> settled) \<times> state" where
  "message_create io sessionOwnerNumber msg st =
     (if msgBody msg \<noteq> [] \<and> startsWith (js ''.'') (msgBody msg)
      then
        let fromNumber = fromNumberOf msg;
            command = commandOf msg;
            commandName = commandNameOf command;
            args = argsOf command
        in
        if commandName = (js ''setprompt'') \<and> fromNumber = sessionOwnerNumber
        then
          let newPrompt = joinWith (js '' '') args in
          if newPrompt \<noteq> []
          then
            (case setPrompt False (promptWriteOk io) sessionOwnerNumber newPrompt st of
               (Inr _, st') \<Rightarrow>
                 ((SetPromptCall sessionOwnerNumber newPrompt
                     # fst (sendGuarded io (msgFrom msg) promptUpdatedText promptFailedText),
                   snd (sendGuarded io (msgFrom msg) promptUpdatedText promptFailedText)), st')
             | (Inl _, st') \<Rightarrow>
                 ((SetPromptCall sessionOwnerNumber newPrompt
                     # fst (sendPlain io (msgFrom msg) promptFailedText),
                   snd (sendPlain io (msgFrom msg) promptFailedText)), st'))
          else (sendPlain io (msgFrom msg) providePromptText, st)
        else if command \<noteq> []
        then
          (if ensureDirOk io
           then
             (case generateAIResponse io command fromNumber st of
                (Inr response, st') \<Rightarrow>
                  if response \<noteq> []
                  then
                    (([InitializeAICall fromNumber, GenerateAIResponseCall command fromNumber]
                        @ fst (sendGuarded io (msgFrom msg) response apologyText),
                      snd (sendGuarded io (msgFrom msg) response apologyText)), st')
                  else
                    (([InitializeAICall fromNumber, GenerateAIResponseCall command fromNumber],
                      Resolved), st')
              | (Inl _, st') \<Rightarrow>
                  (([InitializeAICall fromNumber, GenerateAIResponseCall command fromNumber]
                      @ fst (sendPlain io (msgFrom msg) apologyText),
                    snd (sendPlain io (msgFrom msg) apologyText)), st'))
           else
             ((InitializeAICall fromNumber # fst (sendPlain io (msgFrom msg) apologyText),
               snd (sendPlain io (msgFrom msg) apologyText)), st))
        else (sendPlain io (msgFrom msg) welcomeText, st)
      else (([], Resolved), st))"

section \<open>Runs of the program\<close>

text \<open>
  One event is one uninterrupted piece of execution: a request of the HTTP layer, a
  callback of a transport client, or one part of a create request (its beginning, its
  resumption when \<^verbatim>\<open>client.initialize()\<close> has settled, its resumption when
  \<^verbatim>\<open>requestPairingCode\<close> has settled), so that a run can interleave the parts of
  several create requests with each other and with callbacks. \<open>CreateOrReuseSession\<close>
  is a create request that nothing interleaves. Startup recovery, a teardown and a message
  callback are each taken as one piece. A run applies a list of events, in order, to a
  state.
\<close>

datatype event =
    CreateOrReuseSession create_io jsstring
  | CreateBegin create_io jsstring
  | CreateInitialized create_io jsstring
  | CreatePaired create_io jsstring
  | LoadExistingSessions "(jsstring \<times> client_handle \<times> bool \<times> nat \<times> teardown_io) list"
  | OnReady client_handle jsstring nat
  | OnAuthenticated client_handle jsstring nat
  | OnAuthFailure client_handle jsstring nat
  | OnDisconnected client_handle jsstring nat
  | OnQr "jsstring option" jsstring
  | OnMessageCreate router_io jsstring message
  | DeleteSession teardown_io jsstring
  | SendMessage bool jsstring jsstring jsstring
  | SetPrompt bool jsstring jsstring
  | DeletePrompt bool jsstring

fun step :: "nat \<Rightarrow> event \<Rightarrow> state \<Rightarrow> state" where
  "step MAX_SESSIONS (CreateOrReuseSession io mobile) st =
     snd (createOrReuseSession MAX_SESSIONS io mobile st)"
| "step MAX_SESSIONS (CreateBegin io mobile) st = snd (createBegin MAX_SESSIONS io mobile st)"
| "step MAX_SESSIONS (CreateInitialized io mobileNumber) st =
     snd (createInitialized io mobileNumber st)"
| "step MAX_SESSIONS (CreatePaired io mobileNumber) st = snd (createPaired io mobileNumber st)"
| "step MAX_SESSIONS (LoadExistingSessions entries) st = loadExistingSessions entries st"
| "step MAX_SESSIONS (OnReady c mobileNumber now) st = on_ready c mobileNumber now st"
| "step MAX_SESSIONS (OnAuthenticated c mobileNumber now) st =
     on_authenticated c mobileNumber now st"
| "step MAX_SESSIONS (OnAuthFailure c mobileNumber now) st =
     on_auth_failure c mobileNumber now st"
| "step MAX_SESSIONS (OnDisconnected c mobileNumber now) st =
     on_disconnected c mobileNumber now st"
| "step MAX_SESSIONS (OnQr requested mobileNumber) st = on_qr requested mobileNumber st"
| "step MAX_SESSIONS (OnMessageCreate io owner msg) st = snd (message_create io owner msg st)"
| "step MAX_SESSIONS (DeleteSession io mobile) st = snd (deleteSession io mobile st)"
| "step MAX_SESSIONS (SendMessage sendOk mobile to message) st =
     snd (snd (sendMessage sendOk mobile to message st))"
| "step MAX_SESSIONS (SetPrompt writeOk mobile sp) st = snd (setPrompt True writeOk mobile sp st)"
| "step MAX_SESSIONS (DeletePrompt removeOk mobile) st = snd (deletePrompt removeOk mobile st)"

fun run :: "nat \<Rightarrow> event list \<Rightarrow> state \<Rightarrow> state" where
  "run MAX_SESSIONS [] st = st"
| "run MAX_SESSIONS (e # es) st = run MAX_SESSIONS es (step MAX_SESSIONS e st)"

text \<open>The state at process start: an empty registry and no custom prompt loaded yet.\<close>

definition startState :: "jsstring set \<Rightarrow> histories \<Rightarrow> prompt option \<Rightarrow> state" where
  "startState dirs files dflt =
     \<lparr>clients = [], authState = dirs, histories = files, customPrompts = [],
      defaultPrompt = dflt\<rparr>"

section \<open>Properties of registry entries\<close>

text \<open>
  What is shown below of every entry of the registry in every run: no AI handler is stored,
  a stored pairing code goes with status \<^verbatim>\<open>'pairing'\<close> or \<^verbatim>\<open>'authenticated'\<close>, and an
  entry that is \<^verbatim>\<open>'ready'\<close> or \<^verbatim>\<open>'authenticated'\<close> holds a client. The second predicate
  is the matching property of an object literal passed to \<^verbatim>\<open>updateSessionState\<close>.
\<close>

definition sessionInv :: "session \<Rightarrow> bool" where
  "sessionInv s =
     (aiHandler s = None \<and>
      (case pairingCode s of
         None \<Rightarrow> True
       | Some _ \<Rightarrow> status s = Some Pairing \<or> status s = Some Authenticated) \<and>
      (case client s of
         None \<Rightarrow> status s \<noteq> Some Ready \<and> status s \<noteq> Some Authenticated
       | Some _ \<Rightarrow> True))"

definition fieldsInv :: "fields \<Rightarrow> bool" where
  "fieldsInv f =
     ((case setAiHandler f of None \<Rightarrow> True | Some h \<Rightarrow> h = None) \<and>
      (case setPairingCode f of
         None \<Rightarrow> (case setStatus f of None \<Rightarrow> True | Some x \<Rightarrow> x = Authenticated)
       | Some None \<Rightarrow> True
       | Some (Some _) \<Rightarrow> setStatus f = Some Pairing) \<and>
      (case setClient f of
         None \<Rightarrow> setStatus f \<noteq> Some Ready \<and> setStatus f \<noteq> Some Authenticated
       | Some _ \<Rightarrow> True))"

definition registryInv :: "registry \<Rightarrow> bool" where
  "registryInv cl = list_all (\<lambda>(mobile, s). sessionInv s) cl"

section \<open>Concrete inputs\<close>

text \<open>Inputs on which the operations are evaluated below.\<close>

definition noFiles :: histories where
  "noFiles = (\<lambda>mobile. NoFile)"

definition kindPrompt :: prompt where
  "kindPrompt = \<lparr>systemPrompt = js ''Be kind''\<rparr>"

definition allOk :: teardown_io where
  "allOk = \<lparr>destroyOk = True, removeDirOk = True, clearHistoryOk = True\<rparr>"

definition allFail :: teardown_io where
  "allFail = \<lparr>destroyOk = False, removeDirOk = False, clearHistoryOk = False\<rparr>"

definition pairOk :: create_io where
  "pairOk = \<lparr>newClient = 7, initOk = True, pairingResult = Some (js ''ABCD1234''), dateNow = 100,
     teardown = allOk\<rparr>"

definition echo :: "jsstring \<Rightarrow> turn list \<Rightarrow> jsstring \<Rightarrow> jsstring option" where
  "echo sp history utterance = Some ((js ''re:'') @ utterance)"

definition failing :: "jsstring \<Rightarrow> turn list \<Rightarrow> jsstring \<Rightarrow> jsstring option" where
  "failing sp history utterance = None"

definition accepting :: "jsstring \<Rightarrow> jsstring \<Rightarrow> bool" where
  "accepting to txt = True"

definition relayOk :: router_io where
  "relayOk = \<lparr>apiKey = True, generate = echo, userWriteOk = True, modelWriteOk = True,
     ensureDirOk = True, promptWriteOk = True, transportSendOk = accepting\<rparr>"

definition relayFailing :: router_io where
  "relayFailing = \<lparr>apiKey = True, generate = failing, userWriteOk = True, modelWriteOk = True,
     ensureDirOk = True, promptWriteOk = True, transportSendOk = accepting\<rparr>"

definition freshState :: state where
  "freshState = startState {} noFiles (Some kindPrompt)"

definition authenticatedSession :: session where
  "authenticatedSession = \<lparr>client = Some 7, status = Some Authenticated,
     pairingCode = Some (js ''ABCD1234''), lastActive = Some 200, promptManager = True,
     aiHandler = None\<rparr>"

definition authenticatedState :: state where
  "authenticatedState = freshState\<lparr>clients := [(js ''1'', authenticatedSession)]\<rparr>"

definition readySession :: session where
  "readySession = \<lparr>client = Some 7, status = Some Ready, pairingCode = None,
     lastActive = Some 300, promptManager = True, aiHandler = None\<rparr>"

definition readyState :: state where
  "readyState = freshState\<lparr>clients := [(js ''1'', readySession)]\<rparr>"

definition reuseCall :: create_io where
  "reuseCall = \<lparr>newClient = 8, initOk = True, pairingResult = Some (js ''WXYZ5678''), dateNow = 400,
     teardown = allOk\<rparr>"

definition pairingSession :: session where
  "pairingSession = \<lparr>client = Some 7, status = Some Pairing,
     pairingCode = Some (js ''ABCD1234''), lastActive = Some 100, promptManager = True,
     aiHandler = None\<rparr>"

definition pairingState :: state where
  "pairingState = freshState\<lparr>clients := [(js ''1'', pairingSession)]\<rparr>"



definition helloMsg :: message where
  "helloMsg = \<lparr>msgFrom = js ''1@c.us'', msgBody = js ''.hello''\<rparr>"

definition conversation :: "event list" where
  "conversation =
     [CreateOrReuseSession pairOk (js ''1''), OnAuthenticated 7 (js ''1'') 200, OnReady 7 (js ''1'') 300,
      OnMessageCreate relayOk (js ''1'') helloMsg]"

definition helloTurns :: "turn list" where
  "helloTurns =
     [\<lparr>role = js ''user'', partsText = js ''hello''\<rparr>, \<lparr>role = js ''model'', partsText = js ''re:hello''\<rparr>]"

definition strangerMsg :: message where
  "strangerMsg =
     \<lparr>msgFrom = js ''2@c.us'',
      msgBody = js ''.'' @ [160] @ js ''setprompt Be terse'' @ [160, 8232]\<rparr>"

definition oneTurn :: histories where
  "oneTurn = noFiles((js ''1'') := Stored [\<lparr>role = js ''user'', partsText = js ''hi''\<rparr>])"

section \<open>History append\<close>

lemma isDuplicate_snoc_iff:
  "isDuplicate (h @ [t]) r content = (role t = r \<and> partsText t = content)"
  by (simp add: isDuplicate_def)

lemma getHistory_upd_same: "getHistory (fs(mobile := Stored h)) mobile = h"
  by (simp add: getHistory_def)

lemma getHistory_upd_other: "m \<noteq> mobile \<Longrightarrow> getHistory (fs(mobile := x)) m = getHistory fs m"
  by (simp add: getHistory_def)

lemma addMessageToHistory_other:
  "m \<noteq> mobile \<Longrightarrow> addMessageToHistory w mobile r content fs m = fs m"
  by (simp add: addMessageToHistory_def Let_def)

lemma getHistory_addMessageToHistory:
  "getHistory (addMessageToHistory w mobile r content fs) mobile =
     (if isDuplicate (getHistory fs mobile) r content \<or> \<not> w then getHistory fs mobile
      else getHistory fs mobile @ [\<lparr>role = r, partsText = content\<rparr>])"
  by (simp add: addMessageToHistory_def Let_def getHistory_upd_same)

text \<open>
  Claim C4. For every identity, role and text: appending a turn whose role and text equal
  those of the last stored turn leaves the history files unchanged (whatever the outcome
  of the write would be); appending the same pair a second time right after an append that
  was written changes nothing; and after two appends of the same pair in a row the history
  holds the pair at most once more than before, never twice.
\<close>

theorem addMessageToHistory_consecutive_duplicate:
  "(getHistory fs mobile = h @ [t] \<and> role t = r \<and> partsText t = content \<longrightarrow>
      addMessageToHistory w mobile r content fs = fs) \<and>
   addMessageToHistory w2 mobile r content (addMessageToHistory True mobile r content fs) =
     addMessageToHistory True mobile r content fs \<and>
   getHistory (addMessageToHistory w2 mobile r content
       (addMessageToHistory w1 mobile r content fs)) mobile =
     (if isDuplicate (getHistory fs mobile) r content \<or> (\<not> w1 \<and> \<not> w2) then getHistory fs mobile
      else getHistory fs mobile @ [\<lparr>role = r, partsText = content\<rparr>])"
proof (intro conjI impI)
  assume "getHistory fs mobile = h @ [t] \<and> role t = r \<and> partsText t = content"
  then show "addMessageToHistory w mobile r content fs = fs"
    by (simp add: addMessageToHistory_def Let_def isDuplicate_snoc_iff)
next
  show "addMessageToHistory w2 mobile r content (addMessageToHistory True mobile r content fs) =
     addMessageToHistory True mobile r content fs"
    by (simp add: addMessageToHistory_def Let_def isDuplicate_snoc_iff getHistory_upd_same)
next
  show "getHistory (addMessageToHistory w2 mobile r content
       (addMessageToHistory w1 mobile r content fs)) mobile =
     (if isDuplicate (getHistory fs mobile) r content \<or> (\<not> w1 \<and> \<not> w2) then getHistory fs mobile
      else getHistory fs mobile @ [\<lparr>role = r, partsText = content\<rparr>])"
    by (simp add: getHistory_addMessageToHistory isDuplicate_snoc_iff)
qed

theorem addMessageToHistory_consecutive_duplicate_witness:
  "getHistory oneTurn (js ''1'') = [] @ [\<lparr>role = js ''user'', partsText = js ''hi''\<rparr>] \<and>
   addMessageToHistory True (js ''1'') (js ''user'') (js ''hi'') oneTurn = oneTurn \<and>
   getHistory (addMessageToHistory True (js ''1'') (js ''model'') (js ''yo'')
      (addMessageToHistory True (js ''1'') (js ''model'') (js ''yo'') oneTurn)) (js ''1'') =
     [\<lparr>role = js ''user'', partsText = js ''hi''\<rparr>, \<lparr>role = js ''model'', partsText = js ''yo''\<rparr>]"
proof -
  let ?t = "\<lparr>role = js ''user'', partsText = js ''hi''\<rparr>"
  have h: "getHistory oneTurn (js ''1'') = [] @ [?t]"
    by (simp add: oneTurn_def getHistory_def)
  have d: "\<not> isDuplicate (getHistory oneTurn (js ''1'')) (js ''model'') (js ''yo'')"
    using h by (simp add: isDuplicate_def)
  have a: "addMessageToHistory True (js ''1'') (js ''user'') (js ''hi'') oneTurn = oneTurn"
    using addMessageToHistory_consecutive_duplicate
      [of oneTurn "(js ''1'')" "[]" ?t "(js ''user'')" "(js ''hi'')" True True True, THEN conjunct1] h
    by simp
  have b: "getHistory (addMessageToHistory True (js ''1'') (js ''model'') (js ''yo'')
      (addMessageToHistory True (js ''1'') (js ''model'') (js ''yo'') oneTurn)) (js ''1'') =
     [?t, \<lparr>role = js ''model'', partsText = js ''yo''\<rparr>]"
    using addMessageToHistory_consecutive_duplicate
      [of oneTurn "(js ''1'')" "[]" ?t "(js ''model'')" "(js ''yo'')" True True True,
       THEN conjunct2, THEN conjunct2] d h
    by simp
  show ?thesis using h a b by simp
qed

section \<open>Prompt round trip\<close>

lemma getPromptByMobile_custom:
  "map_of (customPrompts st) (digitsOnly mobile) = Some p \<Longrightarrow> getPromptByMobile mobile st = Inr p"
  by (simp add: getPromptByMobile_def)

lemma getPromptByMobile_default:
  "map_of (customPrompts st) (digitsOnly mobile) = None \<Longrightarrow>
   getPromptByMobile mobile st =
     (case defaultPrompt st of Some d \<Rightarrow> Inr d | None \<Rightarrow> Inl PromptNotFound)"
  by (simp add: getPromptByMobile_def)

text \<open>
  Claim C9. For every identity and prompt text \<open>P\<close>: after a successful \<^verbatim>\<open>setPrompt\<close>
  (the text is not empty and the prompt file was written; the route then answers 200 with
  the prompt), \<^verbatim>\<open>getPromptByMobile\<close> for that identity returns exactly
  \<^verbatim>\<open>{systemPrompt: P}\<close>; and after a successful \<^verbatim>\<open>deletePrompt\<close> (the one that answers
  that the custom prompt was removed), \<^verbatim>\<open>getPromptByMobile\<close> returns the default prompt
  that is loaded.
\<close>

theorem prompt_round_trip:
  "(P \<noteq> [] \<and> writeOk \<longrightarrow>
      getPromptByMobile mobile (snd (setPrompt hasRes writeOk mobile P st)) =
        Inr \<lparr>systemPrompt = P\<rparr> \<and>
      fst (setPrompt True writeOk mobile P st) = Inr (Some (PromptUpdated \<lparr>systemPrompt = P\<rparr>))) \<and>
   (fst (deletePrompt removeOk mobile st) = PromptRemoved \<and> defaultPrompt st = Some d \<longrightarrow>
      getPromptByMobile mobile (snd (deletePrompt removeOk mobile st)) = Inr d)"
proof (intro conjI impI)
  assume a: "P \<noteq> [] \<and> writeOk"
  then show "getPromptByMobile mobile (snd (setPrompt hasRes writeOk mobile P st)) =
        Inr \<lparr>systemPrompt = P\<rparr>"
    by (simp add: setPrompt_def Let_def getPromptByMobile_custom update_conv')
  from a show "fst (setPrompt True writeOk mobile P st) =
      Inr (Some (PromptUpdated \<lparr>systemPrompt = P\<rparr>))"
    by (simp add: setPrompt_def Let_def)
next
  assume a: "fst (deletePrompt removeOk mobile st) = PromptRemoved \<and> defaultPrompt st = Some d"
  then have "snd (deletePrompt removeOk mobile st) =
      st\<lparr>customPrompts := AList.delete (digitsOnly mobile) (customPrompts st)\<rparr>"
    by (auto simp: deletePrompt_def Let_def split: option.splits if_splits)
  with a show "getPromptByMobile mobile (snd (deletePrompt removeOk mobile st)) = Inr d"
    by (simp add: getPromptByMobile_default delete_conv')
qed

theorem prompt_round_trip_witness:
  "(js ''Be terse'') \<noteq> [] \<and>
   getPromptByMobile (js ''+1 (555)'') (snd (setPrompt True True (js ''+1 (555)'') (js ''Be terse'') freshState)) =
     Inr \<lparr>systemPrompt = js ''Be terse''\<rparr> \<and>
   fst (deletePrompt True (js ''1555'') (snd (setPrompt True True (js ''+1 (555)'') (js ''Be terse'') freshState)))
     = PromptRemoved \<and>
   getPromptByMobile (js ''1555'')
     (snd (deletePrompt True (js ''1555'') (snd (setPrompt True True (js ''+1 (555)'') (js ''Be terse'') freshState))))
     = Inr kindPrompt"
proof -
  let ?st = "snd (setPrompt True True (js ''+1 (555)'') (js ''Be terse'') freshState)"
  have s: "getPromptByMobile (js ''+1 (555)'') ?st = Inr \<lparr>systemPrompt = js ''Be terse''\<rparr>"
    using prompt_round_trip [where P = "(js ''Be terse'')" and writeOk = True and mobile = "(js ''+1 (555)'')"
        and hasRes = True and st = freshState, THEN conjunct1]
    by simp
  have r: "fst (deletePrompt True (js ''1555'') ?st) = PromptRemoved"
    by (simp add: deletePrompt_def setPrompt_def Let_def digitsOnly_def isDigit_def
        freshState_def startState_def)
  have d: "defaultPrompt ?st = Some kindPrompt"
    by (simp add: setPrompt_def Let_def freshState_def startState_def)
  have g: "getPromptByMobile (js ''1555'') (snd (deletePrompt True (js ''1555'') ?st)) = Inr kindPrompt"
    using prompt_round_trip [where removeOk = True and mobile = "(js ''1555'')" and st = ?st
        and d = kindPrompt, THEN conjunct2] r d
    by simp
  show ?thesis using s r g by simp
qed

section \<open>Failure of the generation call\<close>

text \<open>
  Claim C6. For every call of \<^verbatim>\<open>generateAIResponse\<close> that gets as far as the generation
  call (API key configured, a non-empty system prompt resolved) and whose generation call
  fails: the call fails with the wrapped generation error, and the state it leaves is the
  state right after the append of the user turn: when that turn was appended (written, and
  not a repetition of the last turn) the history is the old one followed by that user turn,
  and no model turn is added.
\<close>

theorem generateAIResponse_generation_failure:
  assumes "apiKey io"
    and "getPromptByMobile mobileNumber st = Inr p"
    and "systemPrompt p \<noteq> []"
    and "generate io (systemPrompt p)
           (getHistory (addMessageToHistory (userWriteOk io) mobileNumber (js ''user'') userMessage
              (histories st)) mobileNumber) userMessage = None"
  shows "fst (generateAIResponse io userMessage mobileNumber st) =
           Inl (FailedToGenerate GenerationFailed) \<and>
         snd (generateAIResponse io userMessage mobileNumber st) =
           st\<lparr>histories := addMessageToHistory (userWriteOk io) mobileNumber (js ''user'') userMessage
                 (histories st)\<rparr> \<and>
         (userWriteOk io \<and> \<not> isDuplicate (getHistory (histories st) mobileNumber) (js ''user'') userMessage \<longrightarrow>
            getHistory (histories (snd (generateAIResponse io userMessage mobileNumber st)))
                mobileNumber =
              getHistory (histories st) mobileNumber @ [\<lparr>role = js ''user'', partsText = userMessage\<rparr>])"
proof -
  let ?fs = "addMessageToHistory (userWriteOk io) mobileNumber (js ''user'') userMessage (histories st)"
  have eq: "generateAIResponse io userMessage mobileNumber st =
      (Inl (FailedToGenerate GenerationFailed), st\<lparr>histories := ?fs\<rparr>)"
    using assms by (simp add: generateAIResponse_def Let_def)
  have "userWriteOk io \<and> \<not> isDuplicate (getHistory (histories st) mobileNumber) (js ''user'') userMessage
      \<longrightarrow> getHistory ?fs mobileNumber =
        getHistory (histories st) mobileNumber @ [\<lparr>role = js ''user'', partsText = userMessage\<rparr>]"
    by (simp add: getHistory_addMessageToHistory)
  with eq show ?thesis by simp
qed

theorem generateAIResponse_generation_failure_witness:
  "apiKey relayFailing \<and> getPromptByMobile (js ''2'') freshState = Inr kindPrompt \<and>
   systemPrompt kindPrompt \<noteq> [] \<and>
   fst (generateAIResponse relayFailing (js ''hello'') (js ''2'') freshState) =
     Inl (FailedToGenerate GenerationFailed) \<and>
   getHistory (histories (snd (generateAIResponse relayFailing (js ''hello'') (js ''2'') freshState))) (js ''2'') =
     [\<lparr>role = js ''user'', partsText = js ''hello''\<rparr>]"
proof -
  have k: "apiKey relayFailing" by (simp add: relayFailing_def)
  have p: "getPromptByMobile (js ''2'') freshState = Inr kindPrompt"
    by (simp add: getPromptByMobile_def freshState_def startState_def)
  have n: "systemPrompt kindPrompt \<noteq> []" by (simp add: kindPrompt_def)
  have g: "generate relayFailing (systemPrompt kindPrompt)
           (getHistory (addMessageToHistory (userWriteOk relayFailing) (js ''2'') (js ''user'') (js ''hello'')
              (histories freshState)) (js ''2'')) (js ''hello'') = None"
    by (simp add: relayFailing_def failing_def)
  have w: "userWriteOk relayFailing" by (simp add: relayFailing_def)
  have h: "getHistory (histories freshState) (js ''2'') = []"
    by (simp add: freshState_def startState_def noFiles_def getHistory_def)
  have d: "\<not> isDuplicate (getHistory (histories freshState) (js ''2'')) (js ''user'') (js ''hello'')"
    using h by (simp add: isDuplicate_def)
  note t = generateAIResponse_generation_failure [OF k p n g]
  from t [THEN conjunct1] have a: "fst (generateAIResponse relayFailing (js ''hello'') (js ''2'') freshState) =
     Inl (FailedToGenerate GenerationFailed)" by simp
  from t [THEN conjunct2, THEN conjunct2] w d h have b: "getHistory (histories (snd (generateAIResponse relayFailing (js ''hello'') (js ''2'')
     freshState))) (js ''2'') = [\<lparr>role = js ''user'', partsText = js ''hello''\<rparr>]" by simp
  show ?thesis using k p n a b by simp
qed

section \<open>The registry as a map\<close>


lemma map_of_updateSessionState:
  "map_of (updateSessionState mobile f cl) =
     (map_of cl)(mobile \<mapsto> merge (case map_of cl mobile of Some s \<Rightarrow> s | None \<Rightarrow> emptyObject) f)"
  by (simp add: updateSessionState_def update_conv' split: option.splits)


lemma distinct_updateSessionState:
  "distinct (map fst cl) \<Longrightarrow> distinct (map fst (updateSessionState mobile f cl))"
  by (simp add: updateSessionState_def distinct_update split: option.splits)

lemma clients_removeSession:
  "clients (snd (removeSession io mobile st)) = AList.delete mobile (clients st)"
  by (simp add: removeSession_def Let_def)

lemma defaults_removeSession:
  "customPrompts (snd (removeSession io mobile st)) = customPrompts st \<and>
   defaultPrompt (snd (removeSession io mobile st)) = defaultPrompt st"
  by (simp add: removeSession_def Let_def)

section \<open>Sending through a session\<close>

text \<open>
  Claim C10. The send-message operation never changes the state, and it hands a message to
  the transport only when the identity has a registry entry that holds a client and whose
  status is exactly \<^verbatim>\<open>'ready'\<close>. For a request that carries a recipient and a text (the
  route validates both), an identity with no entry or with an entry in any other status,
  \<^verbatim>\<open>'authenticated'\<close> included, gets the not-found answer (404), nothing is sent and the
  state is unchanged.
\<close>

theorem sendMessage_requires_ready:
  "snd (snd (sendMessage sendOk mobile to message st)) = st \<and>
   (fst (snd (sendMessage sendOk mobile to message st)) \<noteq> [] \<longrightarrow>
      (\<exists>s c. getSessionState (digitsOnly mobile) st = Some s \<and> client s = Some c \<and>
         status s = Some Ready \<and>
         fst (snd (sendMessage sendOk mobile to message st)) = [(c, to, message)])) \<and>
   (to \<noteq> [] \<and> message \<noteq> [] \<and> getSessionState (digitsOnly mobile) st = None \<longrightarrow>
      sendMessage sendOk mobile to message st = (NotFoundOrNotReady, [], st)) \<and>
   (to \<noteq> [] \<and> message \<noteq> [] \<and> getSessionState (digitsOnly mobile) st = Some s \<and>
      status s \<noteq> Some Ready \<longrightarrow>
      sendMessage sendOk mobile to message st = (NotFoundOrNotReady, [], st)) \<and>
   statusCode NotFoundOrNotReady = 404"
  by (auto simp: sendMessage_def Let_def split: option.splits)

theorem sendMessage_requires_ready_witness:
  "(js ''2@c.us'') \<noteq> [] \<and> (js ''hi'') \<noteq> [] \<and>
   getSessionState (digitsOnly (js ''1'')) authenticatedState = Some authenticatedSession \<and>
   status authenticatedSession \<noteq> Some Ready \<and>
   sendMessage True (js ''1'') (js ''2@c.us'') (js ''hi'') authenticatedState =
     (NotFoundOrNotReady, [], authenticatedState) \<and>
   getSessionState (digitsOnly (js ''3'')) authenticatedState = None \<and>
   sendMessage True (js ''3'') (js ''2@c.us'') (js ''hi'') authenticatedState =
     (NotFoundOrNotReady, [], authenticatedState) \<and>
   fst (snd (sendMessage True (js ''1'') (js ''2@c.us'') (js ''hi'') readyState)) = [(7, js ''2@c.us'', js ''hi'')]"
proof -
  have g: "getSessionState (digitsOnly (js ''1'')) authenticatedState = Some authenticatedSession"
    by (simp add: authenticatedState_def authenticatedSession_def getSessionState_def
        digitsOnly_def isDigit_def freshState_def startState_def)
  have n: "status authenticatedSession \<noteq> Some Ready"
    by (simp add: authenticatedSession_def)
  have g3: "getSessionState (digitsOnly (js ''3'')) authenticatedState = None"
    by (simp add: authenticatedState_def getSessionState_def
        digitsOnly_def isDigit_def freshState_def startState_def)
  note t = sendMessage_requires_ready
  have a: "sendMessage True (js ''1'') (js ''2@c.us'') (js ''hi'') authenticatedState =
     (NotFoundOrNotReady, [], authenticatedState)"
    using t [where to = "(js ''2@c.us'')" and message = "(js ''hi'')" and mobile = "(js ''1'')"
        and st = authenticatedState and s = authenticatedSession and sendOk = True,
        THEN conjunct2, THEN conjunct2, THEN conjunct2, THEN conjunct1] g n
    by simp
  have b: "sendMessage True (js ''3'') (js ''2@c.us'') (js ''hi'') authenticatedState =
     (NotFoundOrNotReady, [], authenticatedState)"
    using t [where to = "(js ''2@c.us'')" and message = "(js ''hi'')" and mobile = "(js ''3'')"
        and st = authenticatedState and sendOk = True,
        THEN conjunct2, THEN conjunct2, THEN conjunct1] g3
    by simp
  have c: "fst (snd (sendMessage True (js ''1'') (js ''2@c.us'') (js ''hi'') readyState)) = [(7, js ''2@c.us'', js ''hi'')]"
    by (simp add: sendMessage_def Let_def readyState_def readySession_def getSessionState_def
        digitsOnly_def isDigit_def freshState_def startState_def)
  show ?thesis using g n a g3 b c by simp
qed

section \<open>The create request that nothing interleaves\<close>

lemma createOrReuseSession_unfold:
  "createOrReuseSession MAX_SESSIONS io mobile st =
     (let mobileNumber = digitsOnly mobile;
          sessionState = getSessionState mobileNumber st;
          hasClient = (case sessionState of None \<Rightarrow> False
                       | Some s \<Rightarrow> (case client s of None \<Rightarrow> False | Some _ \<Rightarrow> True));
          currentStatus = (case sessionState of None \<Rightarrow> None | Some s \<Rightarrow> status s)
      in
      if MAX_SESSIONS \<le> length (clients st) \<and> sessionState = None
        then (MaxSessionsReached, st)
      else if hasClient \<and> (currentStatus = Some Ready \<or> currentStatus = Some Authenticated)
        then (SessionAlreadyActive currentStatus,
              st\<lparr>clients :=
                updateSessionState mobileNumber (lastActiveFields (dateNow io)) (clients st)\<rparr>)
      else if hasClient \<and> currentStatus = Some Pairing
        then (SessionIsPairing (case sessionState of None \<Rightarrow> None | Some s \<Rightarrow> pairingCode s), st)
      else if currentStatus = Some Initializing
        then (SessionIsInitializing, st)
      else if \<not> initOk io
        then (SessionInitFailed, snd (removeSession (teardown io) mobileNumber st))
      else
        let st1 = st\<lparr>clients :=
              updateSessionState mobileNumber (initializingFields (newClient io) (dateNow io))
                (clients st)\<rparr>
        in
        (case pairingResult io of
           None \<Rightarrow> (SessionInitFailed, snd (removeSession (teardown io) mobileNumber st1))
         | Some code \<Rightarrow>
             (SessionStarted code,
              st1\<lparr>clients := updateSessionState mobileNumber (pairingFields code) (clients st1)\<rparr>)))"
  by (simp add: createOrReuseSession_def createBegin_def createInitialized_def createPaired_def
      Let_def split: option.splits)

section \<open>Concrete runs\<close>

lemmas concrete_defs =
  freshState_def startState_def pairOk_def allOk_def kindPrompt_def noFiles_def
  pairingState_def pairingSession_def authenticatedState_def authenticatedSession_def
  readyState_def readySession_def reuseCall_def

lemmas registry_defs =
  createOrReuseSession_unfold getSessionState_def updateSessionState_def merge_def emptyObject_def
  noFields_def initializingFields_def pairingFields_def readyFields_def authenticatedFields_def
  authFailureFields_def disconnectedFields_def lastActiveFields_def
  on_ready_def on_authenticated_def on_auth_failure_def on_disconnected_def on_qr_def
  digitsOnly_def isDigit_def

lemma pairingState_run:
  "run 10 [CreateOrReuseSession pairOk (js ''1'')] freshState = pairingState"
  by (simp add: concrete_defs registry_defs)

lemma authenticatedState_run:
  "run 10 [CreateOrReuseSession pairOk (js ''1''), OnAuthenticated 7 (js ''1'') 200] freshState =
     authenticatedState"
  by (simp add: concrete_defs registry_defs)

lemma readyState_run:
  "run 10 [CreateOrReuseSession pairOk (js ''1''), OnAuthenticated 7 (js ''1'') 200, OnReady 7 (js ''1'') 300]
     freshState = readyState"
  by (simp add: concrete_defs registry_defs)

section \<open>Capacity\<close>







text \<open>
  Two create requests that overlap: with a maximum of one and an empty registry, the
  requests for the identities 1 and 2 both pass the guard before either has written its
  entry, and the registry holds two entries once both have resumed.
\<close>

lemma overlapping_creates_exceed_maximum:
  "fst (createBegin 1 pairOk (js ''1'') freshState) = None \<and>
   fst (createBegin 1 reuseCall (js ''2'') freshState) = None \<and>
   length (clients (run 1
      [CreateBegin pairOk (js ''1''), CreateBegin reuseCall (js ''2''),
       CreateInitialized pairOk (js ''1''), CreateInitialized reuseCall (js ''2'')]
      freshState)) = 2"
  by (simp add: createBegin_def createInitialized_def Let_def concrete_defs getSessionState_def
      updateSessionState_def digitsOnly_def isDigit_def)


section \<open>Create request for an active session\<close>

text \<open>
  Claim C7, as the code has it. For every identity whose registry entry holds a client and
  has status \<^verbatim>\<open>'ready'\<close> or \<^verbatim>\<open>'authenticated'\<close>, a create request answers that the
  session is already active and changes nothing but that entry's \<^verbatim>\<open>lastActive\<close>, which it
  sets to the current time: status, pairing code, client and every other entry stay as
  they were.
\<close>

theorem createOrReuseSession_active:
  assumes "getSessionState (digitsOnly mobile) st = Some s"
    and "client s = Some c"
    and "status s = Some Ready \<or> status s = Some Authenticated"
  shows "fst (createOrReuseSession MAX_SESSIONS io mobile st) = SessionAlreadyActive (status s) \<and>
         snd (createOrReuseSession MAX_SESSIONS io mobile st) =
           st\<lparr>clients := AList.update (digitsOnly mobile) (s\<lparr>lastActive := Some (dateNow io)\<rparr>)
                 (clients st)\<rparr> \<and>
         getSessionState (digitsOnly mobile) (snd (createOrReuseSession MAX_SESSIONS io mobile st)) =
           Some (s\<lparr>lastActive := Some (dateNow io)\<rparr>)"
proof -
  have m: "merge s (lastActiveFields (dateNow io)) = s\<lparr>lastActive := Some (dateNow io)\<rparr>"
    by (simp add: merge_def lastActiveFields_def noFields_def)
  have eq: "createOrReuseSession MAX_SESSIONS io mobile st =
      (SessionAlreadyActive (status s),
       st\<lparr>clients := AList.update (digitsOnly mobile) (s\<lparr>lastActive := Some (dateNow io)\<rparr>)
             (clients st)\<rparr>)"
    using assms m
    by (auto simp: createOrReuseSession_unfold Let_def getSessionState_def updateSessionState_def)
  then show ?thesis
    by (simp add: getSessionState_def update_conv')
qed

theorem createOrReuseSession_active_witness:
  "getSessionState (digitsOnly (js ''1'')) authenticatedState = Some authenticatedSession \<and>
   client authenticatedSession = Some 7 \<and>
   status authenticatedSession = Some Authenticated \<and>
   createOrReuseSession 10 reuseCall (js ''1'') authenticatedState =
     (SessionAlreadyActive (Some Authenticated),
      authenticatedState\<lparr>clients := [(js ''1'', authenticatedSession\<lparr>lastActive := Some 400\<rparr>)]\<rparr>)"
proof -
  have g: "getSessionState (digitsOnly (js ''1'')) authenticatedState = Some authenticatedSession"
    by (simp add: concrete_defs getSessionState_def digitsOnly_def isDigit_def)
  have c: "client authenticatedSession = Some 7"
    by (simp add: authenticatedSession_def)
  have s: "status authenticatedSession = Some Authenticated"
    by (simp add: authenticatedSession_def)
  have s': "status authenticatedSession = Some Ready \<or> status authenticatedSession = Some Authenticated"
    using s by simp
  note t = createOrReuseSession_active [OF g c s', where MAX_SESSIONS = 10 and io = reuseCall]
  have d: "digitsOnly (js ''1'') = js ''1''" by (simp add: digitsOnly_def isDigit_def)
  have n: "dateNow reuseCall = 400" by (simp add: reuseCall_def)
  have u: "clients authenticatedState = [(js ''1'', authenticatedSession)]"
    by (simp add: authenticatedState_def)
  have "createOrReuseSession 10 reuseCall (js ''1'') authenticatedState =
     (SessionAlreadyActive (Some Authenticated),
      authenticatedState\<lparr>clients := [(js ''1'', authenticatedSession\<lparr>lastActive := Some 400\<rparr>)]\<rparr>)"
    using t s d n u by (simp add: prod_eq_iff)
  then show ?thesis using g c s by simp
qed

text \<open>
  Claim C7 as stated says that no field is modified, \<^verbatim>\<open>lastActive\<close> included. For the
  ready session of identity 1, last active at 300, a create request at time 400 stores
  400.
\<close>

theorem createOrReuseSession_active_updates_lastActive:
  "getSessionState (js ''1'') readyState = Some readySession \<and>
   status readySession = Some Ready \<and>
   lastActive readySession = Some 300 \<and>
   getSessionState (js ''1'') (snd (createOrReuseSession 10 reuseCall (js ''1'') readyState)) =
     Some (readySession\<lparr>lastActive := Some 400\<rparr>)"
  by (simp add: concrete_defs registry_defs Let_def)

section \<open>Every entry in every run\<close>

lemma sessionInv_emptyObject: "sessionInv emptyObject"
  by (simp add: sessionInv_def emptyObject_def)

lemma sessionInv_merge: "sessionInv s \<Longrightarrow> fieldsInv f \<Longrightarrow> sessionInv (merge s f)"
  by (auto simp: sessionInv_def fieldsInv_def merge_def split: option.splits)

lemma fieldsInv_literals:
  "fieldsInv (readyFields c now)" "fieldsInv (authenticatedFields c now)"
  "fieldsInv (authFailureFields c now)" "fieldsInv (disconnectedFields c now)"
  "fieldsInv (initializingFields c now)" "fieldsInv (pairingFields code)"
  "fieldsInv (lastActiveFields now)"
  by (simp_all add: fieldsInv_def readyFields_def authenticatedFields_def authFailureFields_def
      disconnectedFields_def initializingFields_def pairingFields_def lastActiveFields_def
      noFields_def)

lemma registryInv_lookup:
  "registryInv cl \<Longrightarrow> map_of cl mobile = Some s \<Longrightarrow> sessionInv s"
  by (induction cl) (auto simp: registryInv_def split: if_splits)

lemma registryInv_alist_update:
  "registryInv cl \<Longrightarrow> sessionInv s \<Longrightarrow> registryInv (AList.update mobile s cl)"
  by (induction cl) (auto simp: registryInv_def)

lemma registryInv_delete: "registryInv cl \<Longrightarrow> registryInv (AList.delete mobile cl)"
  by (induction cl) (auto simp: registryInv_def)

lemma registryInv_updateSessionState:
  "registryInv cl \<Longrightarrow> fieldsInv f \<Longrightarrow> registryInv (updateSessionState mobile f cl)"
  by (auto simp: updateSessionState_def registryInv_alist_update sessionInv_merge
      sessionInv_emptyObject registryInv_lookup split: option.splits)

lemma registryInv_removeSession:
  "registryInv (clients st) \<Longrightarrow> registryInv (clients (snd (removeSession io mobile st)))"
  by (simp add: clients_removeSession registryInv_delete)

lemma registryInv_createOrReuseSession:
  "registryInv (clients st) \<Longrightarrow>
   registryInv (clients (snd (createOrReuseSession MAX_SESSIONS io mobile st)))"
  by (simp add: createOrReuseSession_unfold Let_def registryInv_updateSessionState
      registryInv_removeSession fieldsInv_literals clients_removeSession registryInv_delete
      split: option.splits)

lemma registryInv_createParts:
  assumes "registryInv (clients st)"
  shows "registryInv (clients (snd (createBegin MAX_SESSIONS io mobile st)))"
    and "registryInv (clients (snd (createInitialized io mobileNumber st)))"
    and "registryInv (clients (snd (createPaired io mobileNumber st)))"
  using assms
  by (simp_all add: createBegin_def createInitialized_def createPaired_def Let_def
      registryInv_updateSessionState registryInv_removeSession fieldsInv_literals
      split: option.splits)

lemma registryInv_loadExistingSessions:
  "registryInv (clients st) \<Longrightarrow> registryInv (clients (loadExistingSessions entries st))"
proof (induction entries arbitrary: st)
  case Nil
  then show ?case by simp
next
  case (Cons e entries)
  obtain folder c ok now tio where e: "e = (folder, c, ok, now, tio)"
    by (cases e) auto
  show ?case
    using Cons.prems
    by (auto simp: e Let_def intro!: Cons.IH registryInv_updateSessionState
        registryInv_removeSession fieldsInv_literals)
qed

lemma clients_generateAIResponse:
  "clients (snd (generateAIResponse io userMessage mobileNumber st)) = clients st"
  by (simp add: generateAIResponse_def Let_def split: sum.splits option.splits)

lemma clients_setPrompt: "clients (snd (setPrompt hasRes writeOk mobile sp st)) = clients st"
  by (simp add: setPrompt_def Let_def)

lemma clients_deletePrompt: "clients (snd (deletePrompt removeOk mobile st)) = clients st"
  by (simp add: deletePrompt_def Let_def split: option.splits)

lemma clients_message_create:
  "clients (snd (message_create io owner msg st)) = clients st"
proof -
  have g: "\<And>u m r st'. generateAIResponse io u m st = (r, st') \<Longrightarrow> clients st' = clients st"
    using clients_generateAIResponse by (metis snd_conv)
  have p: "\<And>w m sp r st'. setPrompt False w m sp st = (r, st') \<Longrightarrow> clients st' = clients st"
    using clients_setPrompt by (metis snd_conv)
  show ?thesis
    by (auto simp: message_create_def Let_def split: prod.splits sum.splits dest: g p)
qed

lemma registryInv_step:
  "registryInv (clients st) \<Longrightarrow> registryInv (clients (step MAX_SESSIONS e st))"
proof (cases e)
  case (CreateOrReuseSession io mobile)
  assume "registryInv (clients st)"
  then show ?thesis by (simp add: CreateOrReuseSession registryInv_createOrReuseSession)
next
  case (LoadExistingSessions entries)
  assume "registryInv (clients st)"
  then show ?thesis by (simp add: LoadExistingSessions registryInv_loadExistingSessions)
next
  case (OnQr requested mobileNumber)
  assume "registryInv (clients st)"
  then show ?thesis
    by (simp add: OnQr on_qr_def registryInv_updateSessionState fieldsInv_literals
        split: option.splits)
next
  case (DeleteSession io mobile)
  assume "registryInv (clients st)"
  then show ?thesis
    by (simp add: DeleteSession deleteSession_def Let_def registryInv_removeSession
        split: option.splits)
next
  case (SendMessage sendOk mobile to message)
  assume "registryInv (clients st)"
  then show ?thesis
    by (simp add: SendMessage sendMessage_def Let_def split: option.splits)
qed (simp_all add: on_ready_def on_authenticated_def on_auth_failure_def on_disconnected_def
      registryInv_updateSessionState fieldsInv_literals clients_message_create
      clients_setPrompt clients_deletePrompt registryInv_createParts)

lemma registryInv_run:
  "registryInv (clients st) \<Longrightarrow> registryInv (clients (run MAX_SESSIONS es st))"
  by (induction es arbitrary: st) (simp_all add: registryInv_step)

lemma run_sessionInv:
  assumes "clients st0 = []" and "getSessionState mobile (run MAX_SESSIONS es st0) = Some s"
  shows "sessionInv s"
proof -
  have "registryInv (clients st0)" using assms(1) by (simp add: registryInv_def)
  then have "registryInv (clients (run MAX_SESSIONS es st0))" by (rule registryInv_run)
  then show ?thesis using assms(2) by (auto simp: getSessionState_def dest: registryInv_lookup)
qed

section \<open>Pairing code\<close>

text \<open>
  Claim C8, as the code has it. In every state that a run reaches from an empty registry,
  an entry's stored pairing code is non-null only while its status is \<^verbatim>\<open>'pairing'\<close> or
  \<^verbatim>\<open>'authenticated'\<close>, and the pairing code that \<^verbatim>\<open>getSessionStatus\<close> reports is non-null
  only while the status is \<^verbatim>\<open>'pairing'\<close>. The callbacks \<^verbatim>\<open>ready\<close>, \<^verbatim>\<open>auth_failure\<close> and
  \<^verbatim>\<open>disconnected\<close> leave the stored pairing code null.
\<close>

theorem pairingCode_only_while_pairing:
  assumes "clients st0 = []"
    and "getSessionState m (run MAX_SESSIONS es st0) = Some s"
  shows "(pairingCode s \<noteq> None \<longrightarrow> status s = Some Pairing \<or> status s = Some Authenticated) \<and>
         (getSessionStatus mobile (run MAX_SESSIONS es st0) = StatusReport isReady (Some code) x \<longrightarrow>
            x = Some Pairing) \<and>
         (getSessionState m (on_ready c m now (run MAX_SESSIONS es st0)) = Some s' \<longrightarrow>
            pairingCode s' = None \<and> status s' = Some Ready) \<and>
         (getSessionState m (on_auth_failure c m now (run MAX_SESSIONS es st0)) = Some s' \<longrightarrow>
            pairingCode s' = None \<and> status s' = Some Unauthenticated) \<and>
         (getSessionState m (on_disconnected c m now (run MAX_SESSIONS es st0)) = Some s' \<longrightarrow>
            pairingCode s' = None \<and> status s' = Some Disconnected)"
proof (intro conjI impI)
  have "sessionInv s" using assms by (rule run_sessionInv)
  moreover assume "pairingCode s \<noteq> None"
  ultimately show "status s = Some Pairing \<or> status s = Some Authenticated"
    by (auto simp: sessionInv_def split: option.splits)
next
  assume "getSessionStatus mobile (run MAX_SESSIONS es st0) = StatusReport isReady (Some code) x"
  then show "x = Some Pairing"
    by (auto simp: getSessionStatus_def split: option.splits if_splits)
next
  assume "getSessionState m (on_ready c m now (run MAX_SESSIONS es st0)) = Some s'"
  then show "pairingCode s' = None" "status s' = Some Ready"
    by (auto simp: on_ready_def getSessionState_def map_of_updateSessionState merge_def
        readyFields_def noFields_def)
next
  assume "getSessionState m (on_auth_failure c m now (run MAX_SESSIONS es st0)) = Some s'"
  then show "pairingCode s' = None" "status s' = Some Unauthenticated"
    by (auto simp: on_auth_failure_def getSessionState_def map_of_updateSessionState merge_def
        authFailureFields_def noFields_def)
next
  assume "getSessionState m (on_disconnected c m now (run MAX_SESSIONS es st0)) = Some s'"
  then show "pairingCode s' = None" "status s' = Some Disconnected"
    by (auto simp: on_disconnected_def getSessionState_def map_of_updateSessionState merge_def
        disconnectedFields_def noFields_def)
qed

theorem pairingCode_only_while_pairing_witness:
  "clients freshState = [] \<and>
   getSessionState (js ''1'') (run 10 [CreateOrReuseSession pairOk (js ''1'')] freshState) = Some pairingSession \<and>
   pairingCode pairingSession \<noteq> None \<and>
   (status pairingSession = Some Pairing \<or> status pairingSession = Some Authenticated) \<and>
   getSessionStatus (js ''1'') (run 10 [CreateOrReuseSession pairOk (js ''1'')] freshState) =
     StatusReport False (Some (js ''ABCD1234'')) (Some Pairing) \<and>
   getSessionState (js ''1'') (on_ready 7 (js ''1'') 300 (run 10 [CreateOrReuseSession pairOk (js ''1'')] freshState))
     = Some (pairingSession\<lparr>status := Some Ready, pairingCode := None, lastActive := Some 300\<rparr>) \<and>
   getSessionState (js ''1'') (on_auth_failure 7 (js ''1'') 300 (run 10 [CreateOrReuseSession pairOk (js ''1'')] freshState))
     = Some (pairingSession\<lparr>status := Some Unauthenticated, pairingCode := None, lastActive := Some 300\<rparr>) \<and>
   getSessionState (js ''1'') (on_disconnected 7 (js ''1'') 300 (run 10 [CreateOrReuseSession pairOk (js ''1'')] freshState))
     = Some (pairingSession\<lparr>status := Some Disconnected, pairingCode := None, lastActive := Some 300\<rparr>)"
proof -
  let ?st = "run 10 [CreateOrReuseSession pairOk (js ''1'')] freshState"
  have e: "clients freshState = []" by (simp add: concrete_defs)
  have r: "?st = pairingState" by (rule pairingState_run)
  have g: "getSessionState (js ''1'') ?st = Some pairingSession"
    by (simp only: r) (simp add: pairingState_def getSessionState_def)
  have p: "pairingCode pairingSession \<noteq> None" by (simp add: pairingSession_def)
  have v: "getSessionStatus (js ''1'') ?st = StatusReport False (Some (js ''ABCD1234'')) (Some Pairing)"
    by (simp only: r) (simp add: pairingState_def pairingSession_def getSessionStatus_def
        getSessionState_def digitsOnly_def isDigit_def)
  have a: "getSessionState (js ''1'') (on_ready 7 (js ''1'') 300 ?st)
     = Some (pairingSession\<lparr>status := Some Ready, pairingCode := None, lastActive := Some 300\<rparr>)"
    by (simp only: r) (simp add: concrete_defs registry_defs)
  have b: "getSessionState (js ''1'') (on_auth_failure 7 (js ''1'') 300 ?st)
     = Some (pairingSession\<lparr>status := Some Unauthenticated, pairingCode := None, lastActive := Some 300\<rparr>)"
    by (simp only: r) (simp add: concrete_defs registry_defs)
  have c: "getSessionState (js ''1'') (on_disconnected 7 (js ''1'') 300 ?st)
     = Some (pairingSession\<lparr>status := Some Disconnected, pairingCode := None, lastActive := Some 300\<rparr>)"
    by (simp only: r) (simp add: concrete_defs registry_defs)
  note t = pairingCode_only_while_pairing [OF e g]
  have s: "status pairingSession = Some Pairing \<or> status pairingSession = Some Authenticated"
    using t [THEN conjunct1] p by simp
  show ?thesis using e g p s v a b c by simp
qed

text \<open>
  Claim C8 as stated says that the stored pairing code is null once the status is no longer
  \<^verbatim>\<open>'pairing'\<close>. After a create request that reached \<^verbatim>\<open>'pairing'\<close> with the code
  \<^verbatim>\<open>ABCD1234\<close>, the \<^verbatim>\<open>authenticated\<close> callback sets the status and leaves the code stored.
\<close>

theorem authenticated_keeps_pairingCode:
  "getSessionState (js ''1'')
     (run 10 [CreateOrReuseSession pairOk (js ''1''), OnAuthenticated 7 (js ''1'') 200] freshState) =
     Some authenticatedSession \<and>
   status authenticatedSession = Some Authenticated \<and>
   pairingCode authenticatedSession = Some (js ''ABCD1234'')"
  by (simp only: authenticatedState_run)
     (simp add: authenticatedState_def authenticatedSession_def getSessionState_def)

section \<open>Teardown\<close>

lemma removeSession_without_handler:
  assumes "\<And>s. getSessionState mobile st = Some s \<Longrightarrow> aiHandler s = None"
  shows "histories (snd (removeSession io mobile st)) = histories st"
  using assms
  by (auto simp: removeSession_def Let_def getSessionState_def split: option.splits)

lemma removeSession_never_clears_history:
  assumes "clients st0 = []"
  shows "histories (snd (removeSession io mobile (run MAX_SESSIONS es st0))) =
         histories (run MAX_SESSIONS es st0)"
proof (rule removeSession_without_handler)
  fix s
  assume "getSessionState mobile (run MAX_SESSIONS es st0) = Some s"
  with assms have "sessionInv s" by (rule run_sessionInv)
  then show "aiHandler s = None" by (simp add: sessionInv_def)
qed

lemma conversation_state:
  "run 10 conversation freshState = readyState\<lparr>histories := noFiles((js ''1'') := Stored helloTurns)\<rparr>"
proof -
  have r: "run 10 conversation freshState =
      snd (message_create relayOk (js ''1'') helloMsg readyState)"
    using readyState_run by (simp add: conversation_def)
  have p: "getPromptByMobile (js ''1'') readyState = Inr kindPrompt"
    by (simp add: getPromptByMobile_def readyState_def freshState_def startState_def)
  have h: "histories readyState = noFiles"
    by (simp add: readyState_def freshState_def startState_def)
  have a: "addMessageToHistory True (js ''1'') (js ''user'') (js ''hello'') noFiles =
      noFiles((js ''1'') := Stored [\<lparr>role = js ''user'', partsText = js ''hello''\<rparr>])"
    by (simp add: addMessageToHistory_def getHistory_def noFiles_def isDuplicate_def)
  have b: "addMessageToHistory True (js ''1'') (js ''model'') (js ''re:hello'')
        (noFiles((js ''1'') := Stored [\<lparr>role = js ''user'', partsText = js ''hello''\<rparr>])) =
      noFiles((js ''1'') := Stored helloTurns)"
    by (simp add: addMessageToHistory_def getHistory_def isDuplicate_def helloTurns_def)
  have g: "generateAIResponse relayOk (js ''hello'') (js ''1'') readyState =
      (Inr (js ''re:hello''), readyState\<lparr>histories := noFiles((js ''1'') := Stored helloTurns)\<rparr>)"
    using p h a b
    by (simp add: generateAIResponse_def Let_def relayOk_def echo_def kindPrompt_def)
  have c: "commandOf helloMsg = js ''hello''"
    by (simp add: commandOf_def helloMsg_def trim_def isWhitespace_def)
  have f: "fromNumberOf helloMsg = js ''1''"
    by (simp add: fromNumberOf_def helloMsg_def)
  have n: "commandNameOf (js ''hello'') = js ''hello''"
    by (simp add: commandNameOf_def)
  have "snd (message_create relayOk (js ''1'') helloMsg readyState) =
      readyState\<lparr>histories := noFiles((js ''1'') := Stored helloTurns)\<rparr>"
    using c f n g
    by (simp add: message_create_def Let_def helloMsg_def startsWith_def relayOk_def)
  with r show ?thesis by simp
qed

text \<open>
  Claim C3 says that removing a session clears the identity's conversation history. The
  code clears it only when the entry stores an AI handler, and no entry ever does (the
  router keeps its handler local). Identity 1 pairs, becomes ready and sends \<^verbatim>\<open>.hello\<close>;
  the history file then holds the user turn and the model turn. The explicit delete answers
  that the session was destroyed, the entry is gone, and the history file still holds both
  turns.
\<close>

theorem deleteSession_keeps_history:
  "getHistory (histories (run 10 conversation freshState)) (js ''1'') = helloTurns \<and>
   fst (deleteSession allOk (js ''1'') (run 10 conversation freshState)) = SessionDestroyed \<and>
   getSessionState (js ''1'') (snd (deleteSession allOk (js ''1'') (run 10 conversation freshState))) = None \<and>
   getHistory (histories (snd (deleteSession allOk (js ''1'') (run 10 conversation freshState)))) (js ''1'') =
     helloTurns"
  by (simp only: conversation_state)
     (simp add: deleteSession_def removeSession_def Let_def getSessionState_def getHistory_def
       readyState_def readySession_def digitsOnly_def isDigit_def allOk_def)

text \<open>
  The steps of \<^verbatim>\<open>removeSession\<close>, in the order in which they are attempted, for every
  identity and every outcome of the external calls: a failure of one step does not stop
  the next. The clearing of the history is attempted only for an entry that stores an AI
  handler.
\<close>

lemma removeSession_steps:
  "fst (removeSession io mobile st) =
     (case getSessionState mobile st of
        None \<Rightarrow> []
      | Some s \<Rightarrow> (case client s of None \<Rightarrow> [] | Some c \<Rightarrow> [(DestroyClient c, destroyOk io)]))
     @ [(RemoveAuthState mobile, removeDirOk io)]
     @ (case getSessionState mobile st of
          None \<Rightarrow> []
        | Some s \<Rightarrow> (case aiHandler s of None \<Rightarrow> [] | Some h \<Rightarrow> [(ClearHistory mobile, True)]))
     @ [(DeleteEntry mobile, True)]"
  by (simp add: removeSession_def Let_def getSessionState_def)

text \<open>In no run from an empty registry does \<^verbatim>\<open>removeSession\<close> attempt the clearing.\<close>

lemma removeSession_steps_in_runs:
  assumes "clients st0 = []"
  shows "fst (removeSession io mobile (run MAX_SESSIONS es st0)) =
     (case getSessionState mobile (run MAX_SESSIONS es st0) of
        None \<Rightarrow> []
      | Some s \<Rightarrow> (case client s of None \<Rightarrow> [] | Some c \<Rightarrow> [(DestroyClient c, destroyOk io)]))
     @ [(RemoveAuthState mobile, removeDirOk io), (DeleteEntry mobile, True)]"
proof (cases "getSessionState mobile (run MAX_SESSIONS es st0)")
  case None
  then show ?thesis by (simp add: removeSession_steps)
next
  case (Some s)
  with assms have "sessionInv s" by (rule run_sessionInv)
  then have "aiHandler s = None" by (simp add: sessionInv_def)
  with Some show ?thesis by (simp add: removeSession_steps)
qed

text \<open>
  What \<^verbatim>\<open>removeSession\<close> does meet: the removal of the auth-state and the deletion of the
  entry are attempted whatever fails before them, the client is destroyed when the entry
  holds one, and a second call in a row attempts only the removal of the auth-state and
  the deletion of the entry, changes neither the registry nor the histories, and leaves no
  entry for the identity.
\<close>

lemma removeSession_best_effort:
  "(getSessionState mobile st = Some s \<and> client s = Some c \<longrightarrow>
      (DestroyClient c, destroyOk io) \<in> set (fst (removeSession io mobile st))) \<and>
   (RemoveAuthState mobile, removeDirOk io) \<in> set (fst (removeSession io mobile st)) \<and>
   (DeleteEntry mobile, True) \<in> set (fst (removeSession io mobile st)) \<and>
   (removeDirOk io \<longrightarrow> mobile \<notin> authState (snd (removeSession io mobile st))) \<and>
   getSessionState mobile (snd (removeSession io mobile st)) = None \<and>
   fst (removeSession io' mobile (snd (removeSession io mobile st))) =
     [(RemoveAuthState mobile, removeDirOk io'), (DeleteEntry mobile, True)] \<and>
   getSessionState mobile (snd (removeSession io' mobile (snd (removeSession io mobile st)))) = None \<and>
   clients (snd (removeSession io' mobile (snd (removeSession io mobile st)))) =
     clients (snd (removeSession io mobile st)) \<and>
   histories (snd (removeSession io' mobile (snd (removeSession io mobile st)))) =
     histories (snd (removeSession io mobile st))"
proof -
  have gone: "getSessionState mobile (snd (removeSession io mobile st)) = None"
    by (simp add: getSessionState_def clients_removeSession delete_conv')
  have steps: "fst (removeSession io' mobile (snd (removeSession io mobile st))) =
     [(RemoveAuthState mobile, removeDirOk io'), (DeleteEntry mobile, True)]"
    using gone by (simp add: removeSession_def [of io'] Let_def getSessionState_def)
  have again: "getSessionState mobile
      (snd (removeSession io' mobile (snd (removeSession io mobile st)))) = None"
    by (simp add: getSessionState_def clients_removeSession delete_conv')
  have same: "clients (snd (removeSession io' mobile (snd (removeSession io mobile st)))) =
     clients (snd (removeSession io mobile st))"
    by (simp add: clients_removeSession delete_idem)
  have hist: "histories (snd (removeSession io' mobile (snd (removeSession io mobile st)))) =
     histories (snd (removeSession io mobile st))"
    using gone by (intro removeSession_without_handler) simp
  have first: "(getSessionState mobile st = Some s \<and> client s = Some c \<longrightarrow>
      (DestroyClient c, destroyOk io) \<in> set (fst (removeSession io mobile st))) \<and>
   (RemoveAuthState mobile, removeDirOk io) \<in> set (fst (removeSession io mobile st)) \<and>
   (DeleteEntry mobile, True) \<in> set (fst (removeSession io mobile st)) \<and>
   (removeDirOk io \<longrightarrow> mobile \<notin> authState (snd (removeSession io mobile st)))"
    by (auto simp: removeSession_def Let_def getSessionState_def)
  show ?thesis using first gone steps again same hist by blast
qed

text \<open>
  Claim C5 says that \<^verbatim>\<open>removeSession\<close> attempts every teardown step, the clearing of the
  history among them, even when an earlier step fails. After the conversation of identity
  1 (pairing, ready, \<^verbatim>\<open>.hello\<close> answered), the history file holds two turns. Whether the
  external calls all succeed or all fail, \<^verbatim>\<open>removeSession\<close> attempts the destruction of
  the client, the removal of the auth-state and the deletion of the entry, and nothing
  else: the clearing of the history is not attempted, and the two turns are still stored
  after a removal in which every call succeeded.
\<close>

theorem removeSession_omits_history_clearing:
  "getHistory (histories (run 10 conversation freshState)) (js ''1'') = helloTurns \<and>
   fst (removeSession allOk (js ''1'') (run 10 conversation freshState)) =
     [(DestroyClient 7, True), (RemoveAuthState (js ''1''), True), (DeleteEntry (js ''1''), True)] \<and>
   fst (removeSession allFail (js ''1'') (run 10 conversation freshState)) =
     [(DestroyClient 7, False), (RemoveAuthState (js ''1''), False), (DeleteEntry (js ''1''), True)] \<and>
   getHistory (histories (snd (removeSession allOk (js ''1'') (run 10 conversation freshState))))
     (js ''1'') = helloTurns"
  by (simp only: conversation_state)
     (simp add: removeSession_def Let_def getSessionState_def getHistory_def
       readyState_def readySession_def allOk_def allFail_def)

section \<open>Administrative command from another sender\<close>

lemma prompts_generateAIResponse:
  "customPrompts (snd (generateAIResponse io userMessage mobileNumber st)) = customPrompts st \<and>
   defaultPrompt (snd (generateAIResponse io userMessage mobileNumber st)) = defaultPrompt st"
  by (simp add: generateAIResponse_def Let_def split: sum.splits option.splits)

lemma commandNameOf_empty: "commandNameOf [] = []"
  by (simp add: commandNameOf_def)

lemma startsWith_nonempty: "startsWith (js ''.'') body \<Longrightarrow> body \<noteq> []"
  by (auto simp: startsWith_def)

lemma sendPlain_calls: "set (fst (sendPlain io to txt)) = {SendMessageCall to txt}"
  by (simp add: sendPlain_def)

lemma sendGuarded_calls:
  "set (fst (sendGuarded io to txt fallback)) \<subseteq> {SendMessageCall to txt, SendMessageCall to fallback}"
  by (auto simp: sendGuarded_def sendPlain_def)

text \<open>
  Claim C2. For every inbound command message whose command name is \<^verbatim>\<open>setprompt\<close>
  (the first word of the body once the dot is dropped and the white space that \<^verbatim>\<open>trim\<close>
  removes, U+00A0 and the other Unicode spaces included, is taken from its two ends) and
  whose sender is not the session owner: the router never calls \<^verbatim>\<open>setPrompt\<close>, the custom
  prompts and the default prompt are unchanged, and the command body, \<^verbatim>\<open>setprompt\<close>
  included, goes to the AI relay as an utterance of the sender: the router initialises the
  relay for the sender and, unless that initialisation fails, calls
  \<^verbatim>\<open>generateAIResponse\<close> with the command body and the sender's identity, whose state
  changes are the only ones the callback makes.
\<close>

theorem setprompt_from_other_sender:
  assumes "startsWith (js ''.'') (msgBody msg)"
    and "commandNameOf (commandOf msg) = js ''setprompt''"
    and "fromNumberOf msg \<noteq> sessionOwnerNumber"
  shows "customPrompts (snd (message_create io sessionOwnerNumber msg st)) = customPrompts st \<and>
         defaultPrompt (snd (message_create io sessionOwnerNumber msg st)) = defaultPrompt st \<and>
         SetPromptCall mobile sp \<notin> set (fst (fst (message_create io sessionOwnerNumber msg st))) \<and>
         (ensureDirOk io \<longrightarrow>
            take 2 (fst (fst (message_create io sessionOwnerNumber msg st))) =
              [InitializeAICall (fromNumberOf msg),
               GenerateAIResponseCall (commandOf msg) (fromNumberOf msg)] \<and>
            snd (message_create io sessionOwnerNumber msg st) =
              snd (generateAIResponse io (commandOf msg) (fromNumberOf msg) st)) \<and>
         (\<not> ensureDirOk io \<longrightarrow>
            take 1 (fst (fst (message_create io sessionOwnerNumber msg st))) =
              [InitializeAICall (fromNumberOf msg)] \<and>
            snd (message_create io sessionOwnerNumber msg st) = st)"
proof -
  let ?from = "fromNumberOf msg"
  let ?command = "commandOf msg"
  have body: "msgBody msg \<noteq> []"
    using assms(1) by (rule startsWith_nonempty)
  have command: "?command \<noteq> []"
    using assms(2) commandNameOf_empty by auto
  show ?thesis
  proof (cases "ensureDirOk io")
    case False
    have "message_create io sessionOwnerNumber msg st =
        ((InitializeAICall ?from # fst (sendPlain io (msgFrom msg) apologyText),
          snd (sendPlain io (msgFrom msg) apologyText)), st)"
      using assms body command False by (simp add: message_create_def Let_def)
    then show ?thesis using False by (simp add: sendPlain_def)
  next
    case True
    obtain r st' where g: "generateAIResponse io ?command ?from st = (r, st')"
      by (cases "generateAIResponse io ?command ?from st") auto
    have p: "customPrompts st' = customPrompts st" "defaultPrompt st' = defaultPrompt st"
      using prompts_generateAIResponse [of io ?command ?from st] g by simp_all
    have "\<exists>sends. message_create io sessionOwnerNumber msg st =
        (([InitializeAICall ?from, GenerateAIResponseCall ?command ?from] @ fst sends, snd sends), st')
        \<and> set (fst sends) \<subseteq> range (SendMessageCall (msgFrom msg))"
    proof (cases r)
      case (Inl e)
      have "message_create io sessionOwnerNumber msg st =
        (([InitializeAICall ?from, GenerateAIResponseCall ?command ?from]
            @ fst (sendPlain io (msgFrom msg) apologyText),
          snd (sendPlain io (msgFrom msg) apologyText)), st')"
        using assms body command True g Inl by (simp add: message_create_def Let_def)
      moreover have "set (fst (sendPlain io (msgFrom msg) apologyText))
          \<subseteq> range (SendMessageCall (msgFrom msg))"
        by (auto simp: sendPlain_calls)
      ultimately show ?thesis by blast
    next
      case (Inr response)
      show ?thesis
      proof (cases "response = []")
        case True
        have "message_create io sessionOwnerNumber msg st =
          (([InitializeAICall ?from, GenerateAIResponseCall ?command ?from]
              @ fst (([], Resolved) :: call list \<times> settled),
            snd (([], Resolved) :: call list \<times> settled)), st')"
          using assms body command \<open>ensureDirOk io\<close> g Inr True
          by (simp add: message_create_def Let_def)
        moreover have "set (fst (([], Resolved) :: call list \<times> settled))
            \<subseteq> range (SendMessageCall (msgFrom msg))"
          by simp
        ultimately show ?thesis by blast
      next
        case False
        have "message_create io sessionOwnerNumber msg st =
          (([InitializeAICall ?from, GenerateAIResponseCall ?command ?from]
              @ fst (sendGuarded io (msgFrom msg) response apologyText),
            snd (sendGuarded io (msgFrom msg) response apologyText)), st')"
          using assms body command \<open>ensureDirOk io\<close> g Inr False
          by (simp add: message_create_def Let_def)
        moreover have "set (fst (sendGuarded io (msgFrom msg) response apologyText))
            \<subseteq> range (SendMessageCall (msgFrom msg))"
          using sendGuarded_calls [of io "msgFrom msg" response apologyText] by auto
        ultimately show ?thesis by blast
      qed
    qed
    then obtain sends where
      m: "message_create io sessionOwnerNumber msg st =
        (([InitializeAICall ?from, GenerateAIResponseCall ?command ?from] @ fst sends, snd sends), st')"
      and s: "set (fst sends) \<subseteq> range (SendMessageCall (msgFrom msg))"
      by blast
    have "SetPromptCall mobile sp \<notin> set (fst sends)"
      using s by auto
    then show ?thesis
      using m p g True by simp
  qed
qed

theorem setprompt_from_other_sender_witness:
  "startsWith (js ''.'') (msgBody strangerMsg) \<and>
   commandNameOf (commandOf strangerMsg) = (js ''setprompt'') \<and>
   fromNumberOf strangerMsg \<noteq> (js ''1'') \<and>
   ensureDirOk relayOk \<and>
   customPrompts (snd (message_create relayOk (js ''1'') strangerMsg readyState)) = [] \<and>
   take 2 (fst (fst (message_create relayOk (js ''1'') strangerMsg readyState))) =
     [InitializeAICall (js ''2''), GenerateAIResponseCall (js ''setprompt Be terse'') (js ''2'')]"
proof -
  have a: "startsWith (js ''.'') (msgBody strangerMsg)"
    by (simp add: startsWith_def strangerMsg_def)
  have c: "commandOf strangerMsg = js ''setprompt Be terse''"
    by (simp add: commandOf_def strangerMsg_def trim_def isWhitespace_def)
  have n: "commandNameOf (commandOf strangerMsg) = js ''setprompt''"
    by (simp add: c commandNameOf_def)
  have f: "fromNumberOf strangerMsg = js ''2''"
    by (simp add: fromNumberOf_def strangerMsg_def)
  have d: "fromNumberOf strangerMsg \<noteq> (js ''1'')"
    by (simp add: f)
  have e: "ensureDirOk relayOk" by (simp add: relayOk_def)
  have z: "customPrompts readyState = []"
    by (simp add: readyState_def freshState_def startState_def)
  note t = setprompt_from_other_sender [OF a n d, where io = relayOk and st = readyState]
  have p: "customPrompts (snd (message_create relayOk (js ''1'') strangerMsg readyState)) = []"
    using t [THEN conjunct1] z by simp
  have k: "take 2 (fst (fst (message_create relayOk (js ''1'') strangerMsg readyState))) =
     [InitializeAICall (js ''2''), GenerateAIResponseCall (js ''setprompt Be terse'') (js ''2'')]"
    using t [THEN conjunct2, THEN conjunct2, THEN conjunct2, THEN conjunct1] e c f by simp
  show ?thesis using a n d e p k by simp
qed


section \<open>Keys of the registry\<close>

text \<open>
  The association list has one entry per key in every run, so its length is the size of
  the \<^verbatim>\<open>Map\<close>.
\<close>

lemma distinct_removeSession:
  "distinct (map fst (clients st)) \<Longrightarrow>
   distinct (map fst (clients (snd (removeSession io mobile st))))"
  by (simp add: clients_removeSession distinct_delete)

lemma distinct_createOrReuseSession:
  "distinct (map fst (clients st)) \<Longrightarrow>
   distinct (map fst (clients (snd (createOrReuseSession MAX_SESSIONS io mobile st))))"
  by (simp add: createOrReuseSession_unfold Let_def distinct_updateSessionState
      distinct_removeSession clients_removeSession distinct_delete split: option.splits)

lemma distinct_createParts:
  assumes "distinct (map fst (clients st))"
  shows "distinct (map fst (clients (snd (createBegin MAX_SESSIONS io mobile st))))"
    and "distinct (map fst (clients (snd (createInitialized io mobileNumber st))))"
    and "distinct (map fst (clients (snd (createPaired io mobileNumber st))))"
  using assms
  by (simp_all add: createBegin_def createInitialized_def createPaired_def Let_def
      distinct_updateSessionState distinct_removeSession split: option.splits)

lemma distinct_loadExistingSessions:
  "distinct (map fst (clients st)) \<Longrightarrow>
   distinct (map fst (clients (loadExistingSessions entries st)))"
proof (induction entries arbitrary: st)
  case Nil
  then show ?case by simp
next
  case (Cons e entries)
  obtain folder c ok now tio where e: "e = (folder, c, ok, now, tio)"
    by (cases e) auto
  show ?case
    using Cons.prems
    by (auto simp: e Let_def intro!: Cons.IH distinct_updateSessionState distinct_removeSession)
qed

lemma distinct_step:
  "distinct (map fst (clients st)) \<Longrightarrow> distinct (map fst (clients (step MAX_SESSIONS e st)))"
  by (cases e)
     (simp_all add: distinct_createOrReuseSession distinct_createParts
       distinct_loadExistingSessions
       on_ready_def on_authenticated_def on_auth_failure_def on_disconnected_def on_qr_def
       distinct_updateSessionState clients_message_create clients_setPrompt clients_deletePrompt
       deleteSession_def sendMessage_def Let_def distinct_removeSession
       split: option.splits)

lemma distinct_run:
  "distinct (map fst (clients st)) \<Longrightarrow> distinct (map fst (clients (run MAX_SESSIONS es st)))"
  by (induction es arbitrary: st) (simp_all add: distinct_step)

end
